theory Spec2Isabelle
  imports Complex_Main "HOL-Library.Log_Nat"
begin

section \<open>Numbers\<close>

text \<open>
  Python's unbounded integers are \<open>int\<close>. \<open>int(x)\<close> on a float truncates toward zero.
\<close>

definition py_int :: "rat \<Rightarrow> int" where
  "py_int q = (if 0 \<le> q then \<lfloor>q\<rfloor> else \<lceil>q\<rceil>)"

text \<open>
  Python's floats are IEEE binary64 numbers. A finite double is a rational
  \<open>m * 2 ^ e\<close> with \<open>\<bar>m\<bar> < 2 ^ 53\<close> and \<open>e \<ge> -1074\<close>, and every float operation of
  the source returns the exact result rounded to the nearest double, ties going to the
  even significand. \<open>double_of\<close> is that rounding: \<open>ilog2\<close> finds the binary exponent of
  a positive rational, \<open>double_exp\<close> the exponent of the last place (held at \<open>-1074\<close>
  for subnormal results), \<open>rne\<close> rounds the scaled value to an integer. Results of
  magnitude \<open>2 ^ 1024\<close> and more, where Python gives \<open>inf\<close>, are outside the model:
  no quantity of the simulation comes near them.

  The float arithmetic of \<open>road.py\<close> (scroll offset, distance, score, spawn timer,
  obstacle and particle motion) is modelled with these operations. The only float
  arithmetic of \<open>car.py\<close> is the velocity update, which is read in exact rationals: what
  is proved of it rests on the exact clamps \<open>max(0, _)\<close> and \<open>min(default_speed, _)\<close>.
\<close>

definition ilog2 :: "rat \<Rightarrow> int" where
  "ilog2 x =
     (let a = fst (quotient_of x);
          b = snd (quotient_of x);
          k = bitlen a - bitlen b
      in if power_int 2 k \<le> x then k else k - 1)"

definition rne :: "rat \<Rightarrow> int" where
  "rne t =
     (let f = \<lfloor>t\<rfloor>;
          r = t - of_int f
      in if r < 1 / 2 then f
         else if r > 1 / 2 then f + 1
         else if even f then f
         else f + 1)"

definition double_exp :: "rat \<Rightarrow> int" where
  "double_exp x = max (ilog2 \<bar>x\<bar> - 52) (- 1074)"

definition double_of :: "rat \<Rightarrow> rat" where
  "double_of x =
     (if x = 0 then 0
      else of_int (rne (x * power_int 2 (- double_exp x))) * power_int 2 (double_exp x))"

text \<open>Python's \<open>+\<close>, \<open>-\<close> and \<open>*\<close> on floats.\<close>

definition float_add :: "rat \<Rightarrow> rat \<Rightarrow> rat" where
  "float_add a b = double_of (a + b)"

definition float_sub :: "rat \<Rightarrow> rat \<Rightarrow> rat" where
  "float_sub a b = double_of (a - b)"

definition float_mul :: "rat \<Rightarrow> rat \<Rightarrow> rat" where
  "float_mul a b = double_of (a * b)"

text \<open>The rationals a float can hold.\<close>

definition is_double :: "rat \<Rightarrow> bool" where
  "is_double x \<longleftrightarrow> double_of x = x"

section \<open>car.py: the vehicle\<close>

record Car =
  car_x :: int
  car_y :: int
  car_width :: int
  car_height :: int
  velocity :: rat
  max_velocity :: rat
  acceleration :: rat
  friction :: rat
  default_speed :: rat
  angle :: int
  lane :: int
  target_lane :: int
  car_lane_width :: int
  lane_change_speed :: int
  braking :: bool
  current_command :: string
  last_command :: string

text \<open>
  \<open>Car.__init__(x, y, width, height)\<close>. The constructor ignores its \<open>x\<close> argument and
  computes the abscissa from the middle lane.
\<close>

definition Car_init :: "int \<Rightarrow> int \<Rightarrow> int \<Rightarrow> int \<Rightarrow> Car" where
  "Car_init x0 y0 w h =
     \<lparr> car_x = 1 * 200 + 200 div 2,
       car_y = y0,
       car_width = w,
       car_height = h,
       velocity = 0,
       max_velocity = 6,
       acceleration = 2 / 10,
       friction = 15 / 100,
       default_speed = 3,
       angle = 0,
       lane = 1,
       target_lane = 1,
       car_lane_width = 200,
       lane_change_speed = 10,
       braking = False,
       current_command = ''CENTER'',
       last_command = ''NONE'' \<rparr>"

text \<open>\<open>Car.update_controls(model_action)\<close>: no branch raises, so the result is a plain state.\<close>

definition update_controls :: "Car \<Rightarrow> string \<Rightarrow> Car" where
  "update_controls c model_action =
     (let c1 = c\<lparr>current_command := model_action\<rparr>;
          c2 = (if model_action = ''BRAKE'' then c1\<lparr>braking := True\<rparr>
                else
                  (let c3 = c1\<lparr>braking := False\<rparr>
                   in if model_action \<noteq> last_command c3 then
                        (if model_action = ''SWIPE_LEFT'' \<and> target_lane c3 > 0
                           then c3\<lparr>target_lane := max 0 (target_lane c3 - 1)\<rparr>
                         else if model_action = ''SWIPE_RIGHT'' \<and> target_lane c3 < 2
                           then c3\<lparr>target_lane := min 2 (target_lane c3 + 1)\<rparr>
                         else c3)
                      else c3))
      in c2\<lparr>last_command := model_action\<rparr>)"

text \<open>\<open>Car.update(dt)\<close>: the speed part, then the lane-changing part. \<open>dt\<close> is not read.\<close>

definition Car_update :: "Car \<Rightarrow> rat \<Rightarrow> Car" where
  "Car_update c dt =
     (let c1 = (if braking c
                  then c\<lparr>velocity := max 0 (velocity c - acceleration c * 4)\<rparr>
                else if velocity c < default_speed c
                  then c\<lparr>velocity := min (default_speed c) (velocity c + acceleration c)\<rparr>
                else c\<lparr>velocity := default_speed c\<rparr>);
          target_x = target_lane c1 * car_lane_width c1 + car_lane_width c1 div 2
      in if \<bar>car_x c1 - target_x\<bar> > 3
           then (if car_x c1 < target_x
                   then c1\<lparr>car_x := car_x c1 + lane_change_speed c1\<rparr>
                 else c1\<lparr>car_x := car_x c1 - lane_change_speed c1\<rparr>)
         else c1\<lparr>car_x := target_x, lane := target_lane c1\<rparr>)"

text \<open>\<open>Car.reset_position(x, y)\<close>: the argument \<open>x\<close> is not read.\<close>

definition reset_position :: "Car \<Rightarrow> int \<Rightarrow> int \<Rightarrow> Car" where
  "reset_position c x0 y0 =
     (let c1 = c\<lparr>car_y := y0, velocity := 0, lane := 1, target_lane := 1\<rparr>;
          c2 = c1\<lparr>car_x := lane c1 * car_lane_width c1 + car_lane_width c1 div 2\<rparr>
      in c2\<lparr>last_command := ''NONE''\<rparr>)"

text \<open>The calls a driver can make on a vehicle, and a run of them from a given state.\<close>

datatype car_op = UpdateControls string | Update rat | ResetPosition int int

fun car_step :: "Car \<Rightarrow> car_op \<Rightarrow> Car" where
  "car_step c (UpdateControls a) = update_controls c a"
| "car_step c (Update dt) = Car_update c dt"
| "car_step c (ResetPosition x0 y0) = reset_position c x0 y0"

definition run_car :: "Car \<Rightarrow> car_op list \<Rightarrow> Car" where
  "run_car c ops = foldl car_step c ops"

section \<open>pygame rectangles\<close>

text \<open>
  \<open>pygame.Rect\<close> belongs to the pygame library, not to the repository. A rectangle stores
  four integers (left, top, width, height); a float passed to the constructor is cut
  toward zero. \<open>colliderect\<close> is the library's overlap test: rectangles of width or
  height 0 collide with nothing, and otherwise the four comparisons are strict.
\<close>

record Rect =
  rect_x :: int
  rect_y :: int
  rect_w :: int
  rect_h :: int

definition colliderect :: "Rect \<Rightarrow> Rect \<Rightarrow> bool" where
  "colliderect a b =
     (if rect_w a = 0 \<or> rect_h a = 0 \<or> rect_w b = 0 \<or> rect_h b = 0 then False
      else min (rect_x a) (rect_x a + rect_w a) < max (rect_x b) (rect_x b + rect_w b)
         \<and> min (rect_y a) (rect_y a + rect_h a) < max (rect_y b) (rect_y b + rect_h b)
         \<and> max (rect_x a) (rect_x a + rect_w a) > min (rect_x b) (rect_x b + rect_w b)
         \<and> max (rect_y a) (rect_y a + rect_h a) > min (rect_y b) (rect_y b + rect_h b))"

text \<open>\<open>Car.get_rect()\<close>: every operand is an integer.\<close>

definition Car_get_rect :: "Car \<Rightarrow> Rect" where
  "Car_get_rect c =
     \<lparr> rect_x = car_x c - car_width c div 2,
       rect_y = car_y c - car_height c div 2,
       rect_w = car_width c,
       rect_h = car_height c \<rparr>"

section \<open>road.py: obstacles\<close>

record Obstacle =
  ob_x :: int
  ob_y :: rat
  ob_width :: int
  ob_height :: int
  ob_speed :: int
  active :: bool
  obstacle_type :: string
  animation_offset :: rat
  points_awarded :: bool
  point_values :: "(string \<times> int) list"

text \<open>
  \<open>Obstacle.__init__(x, y, width, height, speed, obstacle_type)\<close>. The last argument of
  the model is the value \<open>random.random()\<close> returns inside the constructor.
\<close>

definition Obstacle_init ::
  "int \<Rightarrow> rat \<Rightarrow> int \<Rightarrow> int \<Rightarrow> int \<Rightarrow> string \<Rightarrow> rat \<Rightarrow> Obstacle" where
  "Obstacle_init x0 y0 w h sp ty rnd =
     \<lparr> ob_x = x0,
       ob_y = y0,
       ob_width = w,
       ob_height = h,
       ob_speed = sp,
       active = True,
       obstacle_type = ty,
       animation_offset = float_mul rnd (double_of (628 / 100)),
       points_awarded = False,
       point_values = [(''car'', 10), (''truck'', 20), (''barrier'', 5)] \<rparr>"

text \<open>
  \<open>Obstacle.update(dt, camera_speed)\<close>: \<open>camera_speed * dt * 150\<close> is two float
  multiplications from the left, \<open>+=\<close> a float addition.
\<close>

definition Obstacle_update :: "Obstacle \<Rightarrow> rat \<Rightarrow> rat \<Rightarrow> Obstacle" where
  "Obstacle_update ob dt camera_speed =
     (let ob1 = ob\<lparr>ob_y := float_add (ob_y ob) (float_mul (float_mul camera_speed dt) 150)\<rparr>
      in if ob_y ob1 > 800 then ob1\<lparr>active := False\<rparr> else ob1)"

text \<open>
  \<open>Obstacle.get_rect()\<close>: the ordinate is a float, the subtraction a float subtraction,
  and \<open>pygame.Rect\<close> cuts the result.
\<close>

definition Obstacle_get_rect :: "Obstacle \<Rightarrow> Rect" where
  "Obstacle_get_rect ob =
     \<lparr> rect_x = ob_x ob - ob_width ob div 2,
       rect_y = py_int (float_sub (ob_y ob) (of_int (ob_height ob div 2))),
       rect_w = ob_width ob,
       rect_h = ob_height ob \<rparr>"

section \<open>road.py: the road\<close>

text \<open>A road particle is a dictionary with the five keys of \<open>update_particles\<close>.\<close>

record Particle =
  p_x :: int
  p_y :: rat
  p_speed :: rat
  p_life :: rat
  p_max_life :: int

record Road =
  road_width :: int
  road_height :: int
  lane_width :: int
  num_lanes :: int
  road_y_offset :: rat
  line_spacing :: int
  obstacles :: "Obstacle list"
  obstacle_spawn_timer :: rat
  obstacle_spawn_interval :: int
  obstacle_speed :: int
  score :: int
  distance_traveled :: rat
  multiplier :: rat
  bonus_spawn_chance :: rat
  road_particles :: "Particle list"
  explosion_effects :: "unit list"

text \<open>
  The values the global random generator returns during one \<open>Road.update\<close>, in the order
  the source asks for them: \<open>randint\<close> and \<open>random\<close> in \<open>spawn_obstacle\<close>,
  \<open>random\<close> in \<open>Obstacle.__init__\<close>, then \<open>random\<close>, \<open>randint\<close> and the two
  \<open>uniform\<close> calls of \<open>update_particles\<close>.
\<close>

record Draws =
  spawn_lane :: int
  spawn_rand :: rat
  spawn_anim :: rat
  particle_gate :: rat
  particle_x :: int
  particle_speed :: rat
  particle_life :: rat

definition Road_init :: "int \<Rightarrow> int \<Rightarrow> Road" where
  "Road_init w h =
     \<lparr> road_width = w,
       road_height = h,
       lane_width = 200,
       num_lanes = 3,
       road_y_offset = 0,
       line_spacing = 40,
       obstacles = [],
       obstacle_spawn_timer = 0,
       obstacle_spawn_interval = 1500,
       obstacle_speed = 0,
       score = 0,
       distance_traveled = 0,
       multiplier = 1,
       bonus_spawn_chance = 1 / 10,
       road_particles = [],
       explosion_effects = [] \<rparr>"

text \<open>
  \<open>Road.spawn_obstacle()\<close>, given the lane drawn by \<open>randint(0, num_lanes - 1)\<close>, the
  type draw and the constructor's draw. The new obstacle is appended.
\<close>

definition spawn_obstacle :: "Road \<Rightarrow> int \<Rightarrow> rat \<Rightarrow> rat \<Rightarrow> Road" where
  "spawn_obstacle r lane_no rand anim =
     (let x0 = lane_no * lane_width r + lane_width r div 2;
          y0 = - 100;
          w = 50;
          h = 80;
          ty = (if rand < 33 / 100 then ''truck''
                else if rand < 67 / 100 then ''barrier''
                else ''car'');
          obstacle = Obstacle_init x0 y0 w h (obstacle_speed r) ty anim
      in r\<lparr>obstacles := obstacles r @ [obstacle]\<rparr>)"

text \<open>
  The loop \<open>for obstacle in self.obstacles[:]\<close> of \<open>Road.update\<close>. It walks a copy of the
  list, updates each obstacle in place and removes it from the live list when it is no
  longer active. The obstacles are distinct objects compared by identity, so the removal
  takes out exactly the obstacle in hand; the function returns the live list at the end.
\<close>

fun update_obstacles :: "rat \<Rightarrow> rat \<Rightarrow> Obstacle list \<Rightarrow> Obstacle list" where
  "update_obstacles dt car_speed [] = []"
| "update_obstacles dt car_speed (ob # obs) =
     (let ob1 = Obstacle_update ob dt car_speed
      in if \<not> active ob1 then update_obstacles dt car_speed obs
         else ob1 # update_obstacles dt car_speed obs)"

text \<open>
  The loop of \<open>update_particles\<close>, of the same shape. Dictionaries compare by value, and
  the first particle equal to a dead one is that particle itself: the ones before it in
  the live list are alive.
\<close>

fun update_particle_list :: "rat \<Rightarrow> int \<Rightarrow> Particle list \<Rightarrow> Particle list" where
  "update_particle_list dt h [] = []"
| "update_particle_list dt h (p # ps) =
     (let p1 = p\<lparr>p_y := float_add (p_y p) (float_mul (p_speed p) dt)\<rparr>;
          p2 = p1\<lparr>p_life := float_sub (p_life p1) dt\<rparr>
      in if p_life p2 \<le> 0 \<or> p_y p2 > of_int h then update_particle_list dt h ps
         else p2 # update_particle_list dt h ps)"

definition update_particles :: "Road \<Rightarrow> rat \<Rightarrow> Draws \<Rightarrow> Road" where
  "update_particles r dt dr =
     (let r1 = (if particle_gate dr < double_of (4 / 10)
                  then r\<lparr>road_particles := road_particles r @
                         [\<lparr> p_x = particle_x dr, p_y = - 10, p_speed = particle_speed dr,
                            p_life = particle_life dr, p_max_life = 5 \<rparr>]\<rparr>
                else r)
      in r1\<lparr>road_particles := update_particle_list dt (road_height r1) (road_particles r1)\<rparr>)"

text \<open>
  \<open>Road.update(dt, car_speed)\<close>. Every product is built from the left, as Python
  evaluates \<open>car_speed * dt * 100\<close>, and every \<open>+=\<close> on a float field is a float
  addition; the score is an integer and its \<open>+=\<close> is exact.
\<close>

definition Road_update :: "Road \<Rightarrow> rat \<Rightarrow> rat \<Rightarrow> Draws \<Rightarrow> Road" where
  "Road_update r dt car_speed dr =
     (let r1 = r\<lparr>road_y_offset :=
                   float_add (road_y_offset r) (float_mul (float_mul car_speed dt) 100)\<rparr>;
          r2 = (if road_y_offset r1 > of_int (line_spacing r1)
                  then r1\<lparr>road_y_offset := 0\<rparr> else r1);
          distance_increment = float_mul (float_mul car_speed dt) 15;
          r3 = r2\<lparr>distance_traveled := float_add (distance_traveled r2) distance_increment\<rparr>;
          r4 = r3\<lparr>score := score r3 + py_int (float_mul distance_increment (multiplier r3))\<rparr>;
          r5 = r4\<lparr>obstacle_spawn_timer :=
                   float_add (obstacle_spawn_timer r4) (float_mul dt 1000)\<rparr>;
          r6 = (if obstacle_spawn_timer r5 \<ge> of_int (obstacle_spawn_interval r5)
                  then (spawn_obstacle r5 (spawn_lane dr) (spawn_rand dr) (spawn_anim dr))
                         \<lparr>obstacle_spawn_timer := 0\<rparr>
                else r5);
          r7 = r6\<lparr>obstacles := update_obstacles dt car_speed (obstacles r6)\<rparr>
      in update_particles r7 dt dr)"

text \<open>\<open>Road.check_collisions(car_rect)\<close>: the first hit returns.\<close>

fun check_collisions_loop :: "Obstacle list \<Rightarrow> Rect \<Rightarrow> bool \<times> int" where
  "check_collisions_loop [] car_rect = (False, 0)"
| "check_collisions_loop (ob # obs) car_rect =
     (if active ob \<and> colliderect car_rect (Obstacle_get_rect ob) then (True, 0)
      else check_collisions_loop obs car_rect)"

definition check_collisions :: "Road \<Rightarrow> Rect \<Rightarrow> bool \<times> int" where
  "check_collisions r car_rect = check_collisions_loop (obstacles r) car_rect"

definition get_score :: "Road \<Rightarrow> int" where
  "get_score r = score r"

text \<open>
  \<open>Road.reset()\<close>. (\<open>Road.award_points\<close> is called from nowhere in the repository and
  is left out of the model; so are the drawing methods, which change no field.)
\<close>

definition Road_reset :: "Road \<Rightarrow> Road" where
  "Road_reset r =
     r\<lparr> obstacles := [],
        distance_traveled := 0,
        obstacle_spawn_timer := 0,
        score := 0,
        multiplier := 1,
        road_particles := [],
        explosion_effects := [] \<rparr>"

text \<open>The calls that change a road, and a run of them.\<close>

datatype road_op = RoadUpdate rat rat Draws | SpawnObstacle int rat rat | RoadReset

fun road_step :: "Road \<Rightarrow> road_op \<Rightarrow> Road" where
  "road_step r (RoadUpdate dt car_speed dr) = Road_update r dt car_speed dr"
| "road_step r (SpawnObstacle lane_no rand anim) = spawn_obstacle r lane_no rand anim"
| "road_step r RoadReset = Road_reset r"

definition run_road :: "Road \<Rightarrow> road_op list \<Rightarrow> Road" where
  "run_road r ops = foldl road_step r ops"

section \<open>main.py: the driver\<close>

text \<open>
  The state of \<open>ModelControlledCarGame\<close> without the window, the clock, the colours and
  the classifier object.
\<close>

record Game =
  car :: Car
  road :: Road
  prediction_interval :: rat
  time_since_last_prediction :: rat
  pending_action :: string
  game_state :: string
  current_action :: string
  current_confidence :: rat
  all_predictions :: "rat list"
  last_score :: int
  high_score :: int
  score_popup_timer :: int

definition Game_init :: "rat \<Rightarrow> Game" where
  "Game_init interval =
     \<lparr> car = Car_init 300 650 45 70,
       road = Road_init 600 800,
       prediction_interval = interval,
       time_since_last_prediction = 0,
       pending_action = ''CENTER'',
       game_state = ''PLAYING'',
       current_action = ''CENTER'',
       current_confidence = 0,
       all_predictions = [0, 1, 0],
       last_score = 0,
       high_score = 0,
       score_popup_timer = 0 \<rparr>"

text \<open>
  \<open>ModelControlledCarGame.update(dt)\<close>. The classifier is outside the repository's core:
  \<open>pred\<close> is the triple \<open>model_predictor.predict\<close> returns if it is called on this tick,
  \<open>dr\<close> the random draws of the road.
\<close>

definition Game_update :: "Game \<Rightarrow> rat \<Rightarrow> string \<times> rat \<times> rat list \<Rightarrow> Draws \<Rightarrow> Game" where
  "Game_update g dt pred dr =
     (if game_state g = ''PLAYING'' then
        (let g1 = g\<lparr>time_since_last_prediction := time_since_last_prediction g + dt\<rparr>;
             g2 = (if time_since_last_prediction g1 \<ge> prediction_interval g1
                     then g1\<lparr>current_action := fst pred,
                             current_confidence := fst (snd pred),
                             all_predictions := snd (snd pred),
                             pending_action := fst pred,
                             time_since_last_prediction := 0\<rparr>
                   else g1);
             g3 = g2\<lparr>car := update_controls (car g2) (pending_action g2)\<rparr>;
             g4 = g3\<lparr>car := Car_update (car g3) dt\<rparr>;
             g5 = g4\<lparr>road := Road_update (road g4) dt (velocity (car g4)) dr\<rparr>;
             collision = fst (check_collisions (road g5) (Car_get_rect (car g5)))
         in if collision
              then (let g6 = g5\<lparr>game_state := ''GAME_OVER''\<rparr>
                    in if get_score (road g6) > high_score g6
                         then g6\<lparr>high_score := get_score (road g6)\<rparr>
                       else g6)
            else g5)
      else g)"

text \<open>\<open>ModelControlledCarGame.restart_game()\<close>.\<close>

definition restart_game :: "Game \<Rightarrow> Game" where
  "restart_game g =
     g\<lparr> car := reset_position (car g) 300 650,
        road := Road_reset (road g),
        game_state := ''PLAYING'',
        time_since_last_prediction := 0,
        pending_action := ''CENTER'' \<rparr>"

text \<open>A run of driver ticks, each with its time delta, classifier answer and draws.\<close>

definition run_game :: "Game \<Rightarrow> (rat \<times> (string \<times> rat \<times> rat list) \<times> Draws) list \<Rightarrow> Game" where
  "run_game g ticks = foldl (\<lambda>s (dt, pred, dr). Game_update s dt pred dr) g ticks"

section \<open>Notions used in the statements and proofs\<close>

text \<open>The two blocks of \<open>Car.update\<close>, named so that each can be reasoned about alone.\<close>

definition speed_step :: "Car \<Rightarrow> Car" where
  "speed_step c =
     (if braking c
        then c\<lparr>velocity := max 0 (velocity c - acceleration c * 4)\<rparr>
      else if velocity c < default_speed c
        then c\<lparr>velocity := min (default_speed c) (velocity c + acceleration c)\<rparr>
      else c\<lparr>velocity := default_speed c\<rparr>)"

definition lane_step :: "Car \<Rightarrow> Car" where
  "lane_step c =
     (if \<bar>car_x c - (target_lane c * car_lane_width c + car_lane_width c div 2)\<bar> > 3
        then (if car_x c < target_lane c * car_lane_width c + car_lane_width c div 2
                then c\<lparr>car_x := car_x c + lane_change_speed c\<rparr>
              else c\<lparr>car_x := car_x c - lane_change_speed c\<rparr>)
      else c\<lparr>car_x := target_lane c * car_lane_width c + car_lane_width c div 2,
             lane := target_lane c\<rparr>)"

text \<open>
  The invariant of the vehicle: the ranges of the data model together with the constants
  of the constructor that the speed block relies on.
\<close>

definition car_ok :: "Car \<Rightarrow> bool" where
  "car_ok c \<longleftrightarrow>
     0 \<le> lane c \<and> lane c \<le> 2 \<and> 0 \<le> target_lane c \<and> target_lane c \<le> 2
     \<and> 0 \<le> velocity c \<and> velocity c \<le> default_speed c
     \<and> default_speed c = 3 \<and> max_velocity c = 6 \<and> acceleration c = 2 / 10"

text \<open>
  What a driver or renderer can see of a vehicle: every field except the two command
  strings, which only \<open>update_controls\<close> reads.
\<close>

definition observable :: "Car \<Rightarrow> Car" where
  "observable c = c\<lparr>current_command := [], last_command := []\<rparr>"

definition swipe :: "string \<Rightarrow> bool" where
  "swipe a \<longleftrightarrow> a = ''SWIPE_LEFT'' \<or> a = ''SWIPE_RIGHT''"

text \<open>
  Two vehicles are alike when they look the same and their remembered commands are equal
  or are both not lane-change commands.
\<close>

definition alike :: "Car \<Rightarrow> Car \<Rightarrow> bool" where
  "alike c d \<longleftrightarrow>
     observable c = observable d
     \<and> (last_command c = last_command d
        \<or> (\<not> swipe (last_command c) \<and> \<not> swipe (last_command d)))"

text \<open>The blocks of \<open>Road.update\<close> before the obstacle loop, named for the proofs.\<close>

definition scroll_step :: "Road \<Rightarrow> rat \<Rightarrow> rat \<Rightarrow> Road" where
  "scroll_step r dt car_speed =
     (if road_y_offset (r\<lparr>road_y_offset :=
                   float_add (road_y_offset r) (float_mul (float_mul car_speed dt) 100)\<rparr>)
           > of_int (line_spacing (r\<lparr>road_y_offset :=
                   float_add (road_y_offset r) (float_mul (float_mul car_speed dt) 100)\<rparr>))
        then r\<lparr>road_y_offset :=
                   float_add (road_y_offset r) (float_mul (float_mul car_speed dt) 100)\<rparr>\<lparr>road_y_offset := 0\<rparr>
      else r\<lparr>road_y_offset :=
                   float_add (road_y_offset r) (float_mul (float_mul car_speed dt) 100)\<rparr>)"

definition score_step :: "Road \<Rightarrow> rat \<Rightarrow> rat \<Rightarrow> Road" where
  "score_step r dt car_speed =
     r\<lparr>distance_traveled := float_add (distance_traveled r) (float_mul (float_mul car_speed dt) 15)\<rparr>
      \<lparr>score := score (r\<lparr>distance_traveled := float_add (distance_traveled r) (float_mul (float_mul car_speed dt) 15)\<rparr>)
         + py_int (float_mul (float_mul (float_mul car_speed dt) 15)
             (multiplier (r\<lparr>distance_traveled := float_add (distance_traveled r) (float_mul (float_mul car_speed dt) 15)\<rparr>)))\<rparr>"

definition spawn_step :: "Road \<Rightarrow> rat \<Rightarrow> Draws \<Rightarrow> Road" where
  "spawn_step r dt dr =
     (if obstacle_spawn_timer (r\<lparr>obstacle_spawn_timer :=
                   float_add (obstacle_spawn_timer r) (float_mul dt 1000)\<rparr>)
           \<ge> of_int (obstacle_spawn_interval
                 (r\<lparr>obstacle_spawn_timer :=
                   float_add (obstacle_spawn_timer r) (float_mul dt 1000)\<rparr>))
        then (spawn_obstacle (r\<lparr>obstacle_spawn_timer :=
                   float_add (obstacle_spawn_timer r) (float_mul dt 1000)\<rparr>)
                (spawn_lane dr) (spawn_rand dr) (spawn_anim dr))\<lparr>obstacle_spawn_timer := 0\<rparr>
      else r\<lparr>obstacle_spawn_timer :=
                   float_add (obstacle_spawn_timer r) (float_mul dt 1000)\<rparr>)"

definition obstacles_step :: "Road \<Rightarrow> rat \<Rightarrow> rat \<Rightarrow> Road" where
  "obstacles_step r dt car_speed =
     r\<lparr>obstacles := update_obstacles dt car_speed (obstacles r)\<rparr>"

text \<open>
  The area two rectangles share, read on their normalised edges: the length of the common
  part of the two horizontal extents times that of the two vertical extents.
\<close>

definition extent_overlap :: "int \<Rightarrow> int \<Rightarrow> int \<Rightarrow> int \<Rightarrow> int" where
  "extent_overlap x w x' w' =
     max 0 (min (max x (x + w)) (max x' (x' + w')) - max (min x (x + w)) (min x' (x' + w')))"

definition overlap_area :: "Rect \<Rightarrow> Rect \<Rightarrow> int" where
  "overlap_area a b =
     extent_overlap (rect_x a) (rect_w a) (rect_x b) (rect_w b)
     * extent_overlap (rect_y a) (rect_h a) (rect_y b) (rect_h b)"

text \<open>The fields that the constructors set and no method writes.\<close>

definition car_consts :: "Car \<Rightarrow> int \<Rightarrow> int \<Rightarrow> bool" where
  "car_consts c w h \<longleftrightarrow>
     car_width c = w \<and> car_height c = h \<and> max_velocity c = 6 \<and> acceleration c = 2 / 10
     \<and> friction c = 15 / 100 \<and> default_speed c = 3 \<and> angle c = 0
     \<and> car_lane_width c = 200 \<and> lane_change_speed c = 10"

definition road_consts :: "Road \<Rightarrow> int \<Rightarrow> int \<Rightarrow> bool" where
  "road_consts r w h \<longleftrightarrow>
     road_width r = w \<and> road_height r = h \<and> lane_width r = 200 \<and> num_lanes r = 3
     \<and> line_spacing r = 40 \<and> obstacle_spawn_interval r = 1500 \<and> obstacle_speed r = 0
     \<and> bonus_spawn_chance r = 1 / 10 \<and> explosion_effects r = []"

text \<open>What holds of every road the constructor and the methods produce.\<close>

definition road_ok :: "Road \<Rightarrow> bool" where
  "road_ok r \<longleftrightarrow>
     (\<forall>ob \<in> set (obstacles r). active ob) \<and> multiplier r = 1
     \<and> is_double (distance_traveled r)"

section \<open>Doubles: rounding is monotone, odd and idempotent\<close>

lemma pow2_pos: "0 < power_int (2::rat) k"
  by (simp add: zero_less_power_int)

lemma pow2_nat: "0 \<le> n \<Longrightarrow> (2::rat) ^ nat n = power_int 2 n"
  by (simp add: power_int_def)

lemma pow2_add: "power_int (2::rat) (m + n) = power_int 2 m * power_int 2 n"
  by (simp add: power_int_add)

lemma pow2_mono: "m \<le> n \<Longrightarrow> power_int (2::rat) m \<le> power_int 2 n"
  by (simp add: power_int_increasing)

lemma bitlen_bounds_rat:
  assumes "0 < a"
  shows "power_int (2::rat) (bitlen a - 1) \<le> of_int a" and "of_int a < power_int (2::rat) (bitlen a)"
proof -
  have b1: "1 \<le> bitlen a"
    using assms bitlen_eq_zero_iff [of a] bitlen_nonneg [of a] by linarith
  have lo: "(2::int) ^ nat (bitlen a - 1) \<le> a" and hi: "a < (2::int) ^ nat (bitlen a)"
    using bitlen_bounds [OF assms] by simp_all
  have "(of_int ((2::int) ^ nat (bitlen a - 1)) :: rat) \<le> of_int a"
    using lo by (simp only: of_int_le_iff)
  then show "power_int (2::rat) (bitlen a - 1) \<le> of_int a"
    using b1 by (simp add: pow2_nat [symmetric])
  have "(of_int a :: rat) < of_int ((2::int) ^ nat (bitlen a))"
    using hi by (simp only: of_int_less_iff)
  then show "of_int a < power_int (2::rat) (bitlen a)"
    using b1 by (simp add: pow2_nat [symmetric])
qed

lemma quotient_of_pos:
  assumes "0 < x"
  shows "0 < fst (quotient_of x)" and "0 < snd (quotient_of x)"
    and "x = of_int (fst (quotient_of x)) / of_int (snd (quotient_of x))"
proof -
  obtain a b where q: "quotient_of x = (a, b)"
    by (cases "quotient_of x") auto
  have b: "0 < b"
    using q by (rule quotient_of_denom_pos)
  have x: "x = of_int a / of_int b"
    using q by (rule quotient_of_div)
  have a: "0 < a"
    using assms b x by (simp add: zero_less_divide_iff)
  show "0 < fst (quotient_of x)"
    using a by (simp only: q fst_conv)
  show "0 < snd (quotient_of x)"
    using b by (simp only: q snd_conv)
  have "fst (quotient_of x) = a" and "snd (quotient_of x) = b"
    by (simp_all only: q fst_conv snd_conv)
  then show "x = of_int (fst (quotient_of x)) / of_int (snd (quotient_of x))"
    using x by metis
qed

lemma ilog2_bounds:
  assumes "0 < x"
  shows "power_int 2 (ilog2 x) \<le> x" and "x < power_int 2 (ilog2 x + 1)"
proof -
  define a where "a = fst (quotient_of x)"
  define b where "b = snd (quotient_of x)"
  define k where "k = bitlen a - bitlen b"
  have a: "0 < a" and b: "0 < b" and x: "x = of_int a / of_int b"
    using quotient_of_pos [OF assms] by (simp_all add: a_def b_def)
  have il: "ilog2 x = (if power_int 2 k \<le> x then k else k - 1)"
    by (simp add: ilog2_def a_def b_def k_def Let_def)
  have ra: "0 < (of_int a :: rat)" and rb: "0 < (of_int b :: rat)"
    using a b by simp_all
  have up: "x < power_int 2 (k + 1)"
  proof -
    have "x * of_int b = of_int a"
      using rb x by simp
    also have "\<dots> < power_int (2::rat) (bitlen a)"
      using bitlen_bounds_rat(2) [OF a] .
    also have "\<dots> = power_int 2 (k + 1) * power_int 2 (bitlen b - 1)"
      by (simp add: k_def pow2_add [symmetric])
    also have "\<dots> \<le> power_int 2 (k + 1) * of_int b"
      using bitlen_bounds_rat(1) [OF b] pow2_pos [of "k + 1"] by simp
    finally show ?thesis
      using rb by simp
  qed
  have low: "power_int 2 (k - 1) \<le> x"
  proof -
    have "power_int 2 (k - 1) * of_int b \<le> power_int 2 (k - 1) * power_int (2::rat) (bitlen b)"
      using bitlen_bounds_rat(2) [OF b] pow2_pos [of "k - 1"] by simp
    also have "\<dots> = power_int 2 (bitlen a - 1)"
      by (simp add: k_def pow2_add [symmetric])
    also have "\<dots> \<le> of_int a"
      using bitlen_bounds_rat(1) [OF a] .
    also have "\<dots> = x * of_int b"
      using rb x by simp
    finally show ?thesis
      using rb by simp
  qed
  show "power_int 2 (ilog2 x) \<le> x"
    using low by (simp add: il)
  show "x < power_int 2 (ilog2 x + 1)"
    using up by (auto simp add: il)
qed

lemma rne_cases:
  "(rne t = \<lfloor>t\<rfloor> \<and> t - of_int \<lfloor>t\<rfloor> \<le> 1 / 2)
   \<or> (rne t = \<lfloor>t\<rfloor> + 1 \<and> 1 / 2 \<le> t - of_int \<lfloor>t\<rfloor>)"
  unfolding rne_def Let_def by (simp only: split: if_split) auto

lemma rne_bounds: "t - 1 / 2 \<le> of_int (rne t)" "of_int (rne t) \<le> t + 1 / 2"
proof -
  have f: "of_int \<lfloor>t\<rfloor> \<le> t" "t < of_int \<lfloor>t\<rfloor> + 1"
    by linarith+
  consider (down) "rne t = \<lfloor>t\<rfloor>" "t - of_int \<lfloor>t\<rfloor> \<le> 1 / 2"
    | (up) "rne t = \<lfloor>t\<rfloor> + 1" "1 / 2 \<le> t - of_int \<lfloor>t\<rfloor>"
    using rne_cases [of t] by blast
  then have "t - 1 / 2 \<le> of_int (rne t) \<and> of_int (rne t) \<le> t + 1 / 2"
  proof cases
    case down
    have "(of_int (rne t) :: rat) = of_int \<lfloor>t\<rfloor>"
      by (simp only: down(1))
    then show ?thesis
      using f down(2) by linarith
  next
    case up
    have "(of_int (rne t) :: rat) = of_int \<lfloor>t\<rfloor> + 1"
      by (simp only: up(1) of_int_add of_int_1)
    then show ?thesis
      using f up(2) by linarith
  qed
  then show "t - 1 / 2 \<le> of_int (rne t)" and "of_int (rne t) \<le> t + 1 / 2"
    by blast+
qed

lemma rne_of_int: "rne (of_int n) = n"
  by (simp add: rne_def Let_def)

lemma rne_mono:
  assumes "s \<le> t"
  shows "rne s \<le> rne t"
proof (cases "s = t")
  case True
  then show ?thesis by simp
next
  case False
  then have lt: "s < t"
    using assms by simp
  have "(of_int (rne s) :: rat) \<le> s + 1 / 2"
    by (rule rne_bounds)
  moreover have "t - 1 / 2 \<le> (of_int (rne t) :: rat)"
    by (rule rne_bounds)
  ultimately have "(of_int (rne s) :: rat) < of_int (rne t) + 1"
    using lt by linarith
  then have "(of_int (rne s) :: rat) < of_int (rne t + 1)"
    by simp
  then have "rne s < rne t + 1"
    by (simp only: of_int_less_iff)
  then show ?thesis
    by simp
qed

lemma rne_minus: "rne (- t) = - rne t"
proof (cases "t = of_int \<lfloor>t\<rfloor>")
  case True
  then obtain n where t: "t = of_int n"
    by blast
  have "rne (- of_int n) = rne (of_int (- n))"
    by simp
  then show ?thesis
    by (simp only: t rne_of_int)
next
  case False
  have f: "of_int \<lfloor>t\<rfloor> \<le> t" "t < of_int \<lfloor>t\<rfloor> + 1"
    by linarith+
  have ne: "of_int \<lfloor>t\<rfloor> \<noteq> t"
    using False by (rule not_sym)
  have lt: "of_int \<lfloor>t\<rfloor> < t"
    using f(1) ne by (rule le_neq_trans)
  have "of_int (- \<lfloor>t\<rfloor> - 1) \<le> - t" and "- t < of_int (- \<lfloor>t\<rfloor> - 1) + 1"
    using lt f(2) by (simp_all only: of_int_diff of_int_minus of_int_1)
  then have fl: "\<lfloor>- t\<rfloor> = - \<lfloor>t\<rfloor> - 1"
    by (rule floor_unique)
  define r where "r = t - of_int \<lfloor>t\<rfloor>"
  have r: "0 < r" "r < 1"
    using lt f(2) by (simp_all only: r_def)
  have r': "- t - of_int (- \<lfloor>t\<rfloor> - 1) = 1 - r"
    by (simp add: r_def)
  have ev: "even (- \<lfloor>t\<rfloor> - 1) \<longleftrightarrow> odd \<lfloor>t\<rfloor>"
    by simp
  have lhs: "rne (- t) =
      (if 1 - r < 1 / 2 then - \<lfloor>t\<rfloor> - 1
       else if 1 - r > 1 / 2 then - \<lfloor>t\<rfloor>
       else if odd \<lfloor>t\<rfloor> then - \<lfloor>t\<rfloor> - 1 else - \<lfloor>t\<rfloor>)"
    unfolding rne_def Let_def fl r' ev by simp
  have rhs: "rne t =
      (if r < 1 / 2 then \<lfloor>t\<rfloor>
       else if r > 1 / 2 then \<lfloor>t\<rfloor> + 1
       else if even \<lfloor>t\<rfloor> then \<lfloor>t\<rfloor> else \<lfloor>t\<rfloor> + 1)"
    unfolding rne_def Let_def r_def by (rule refl)
  show ?thesis
    unfolding lhs rhs using r by auto
qed

lemma ilog2_mono:
  assumes "0 < x" and "x \<le> y"
  shows "ilog2 x \<le> ilog2 y"
proof (rule ccontr)
  assume "\<not> ilog2 x \<le> ilog2 y"
  then have "ilog2 y + 1 \<le> ilog2 x"
    by simp
  then have "power_int (2::rat) (ilog2 y + 1) \<le> power_int 2 (ilog2 x)"
    by (rule pow2_mono)
  also have "\<dots> \<le> x"
    using assms(1) by (rule ilog2_bounds)
  also have "\<dots> \<le> y"
    by (rule assms(2))
  finally have "power_int (2::rat) (ilog2 y + 1) \<le> y" .
  moreover have "y < power_int 2 (ilog2 y + 1)"
    using assms by (intro ilog2_bounds) simp
  ultimately show False
    by simp
qed

lemma double_exp_minus: "double_exp (- x) = double_exp x"
  by (simp add: double_exp_def)

lemma double_exp_mono:
  assumes "0 < x" and "x \<le> y"
  shows "double_exp x \<le> double_exp y"
  using ilog2_mono [OF assms] assms by (simp add: double_exp_def)

lemma double_of_minus: "double_of (- x) = - double_of x"
proof (cases "x = 0")
  case True
  then show ?thesis by (simp add: double_of_def)
next
  case False
  have "rne (- x * power_int 2 (- double_exp x)) = - rne (x * power_int 2 (- double_exp x))"
    using rne_minus [of "x * power_int 2 (- double_exp x)"] by simp
  then show ?thesis
    using False by (simp add: double_of_def double_exp_minus)
qed

lemma rne_nonneg: "0 \<le> t \<Longrightarrow> 0 \<le> rne t"
  using rne_mono [of 0 t] rne_of_int [of 0] by simp

lemma double_of_nonneg: "0 \<le> x \<Longrightarrow> 0 \<le> double_of x"
  using pow2_pos [of "- double_exp x"] pow2_pos [of "double_exp x"]
  by (simp add: double_of_def rne_nonneg)

lemma double_of_pos_eq:
  "0 < x \<Longrightarrow>
   double_of x = of_int (rne (x * power_int 2 (- double_exp x))) * power_int 2 (double_exp x)"
  by (simp add: double_of_def)

lemma pow2_numeral: "power_int (2::rat) 53 = of_int (2 ^ 53)" "power_int (2::rat) 52 = of_int (2 ^ 52)"
  by (simp_all add: power_int_def)

lemma double_of_upper:
  assumes "0 < x"
  shows "double_of x \<le> power_int 2 (double_exp x + 53)"
proof -
  let ?e = "double_exp x"
  have e: "ilog2 x - 52 \<le> ?e"
    using assms by (simp add: double_exp_def)
  have "x < power_int 2 (ilog2 x + 1)"
    using assms by (rule ilog2_bounds)
  also have "\<dots> \<le> power_int 2 (?e + 53)"
    using e by (intro pow2_mono) simp
  finally have "x * power_int 2 (- ?e) \<le> power_int 2 (?e + 53) * power_int 2 (- ?e)"
    using pow2_pos [of "- ?e"] by simp
  also have "\<dots> = of_int (2 ^ 53)"
    by (simp add: pow2_add [symmetric] pow2_numeral)
  finally have "rne (x * power_int 2 (- ?e)) \<le> rne (of_int (2 ^ 53))"
    by (rule rne_mono)
  then have "rne (x * power_int 2 (- ?e)) \<le> 2 ^ 53"
    by (simp only: rne_of_int)
  then have "(of_int (rne (x * power_int 2 (- ?e))) :: rat) \<le> of_int (2 ^ 53)"
    by (simp only: of_int_le_iff)
  then have "of_int (rne (x * power_int 2 (- ?e))) * power_int 2 ?e
               \<le> power_int (2::rat) 53 * power_int 2 ?e"
    using pow2_pos [of ?e] by (simp only: pow2_numeral mult_le_cancel_right_pos)
  also have "\<dots> = power_int 2 (?e + 53)"
    by (simp only: pow2_add [symmetric] add.commute)
  finally show ?thesis
    by (simp only: double_of_pos_eq [OF assms])
qed

lemma double_of_lower:
  assumes "0 < x" and "- 1074 < double_exp x"
  shows "power_int 2 (double_exp x + 52) \<le> double_of x"
proof -
  let ?e = "double_exp x"
  have e: "?e = ilog2 x - 52"
    using assms by (simp add: double_exp_def)
  have "power_int 2 (?e + 52) = power_int (2::rat) (ilog2 x)"
    by (simp add: e)
  also have "\<dots> \<le> x"
    using assms(1) by (rule ilog2_bounds)
  finally have "power_int 2 (?e + 52) * power_int 2 (- ?e) \<le> x * power_int 2 (- ?e)"
    using pow2_pos [of "- ?e"] by simp
  moreover have "power_int 2 (?e + 52) * power_int 2 (- ?e) = (of_int (2 ^ 52) :: rat)"
    by (simp add: pow2_add [symmetric] pow2_numeral)
  ultimately have "(of_int (2 ^ 52) :: rat) \<le> x * power_int 2 (- ?e)"
    by simp
  then have "rne (of_int (2 ^ 52)) \<le> rne (x * power_int 2 (- ?e))"
    by (rule rne_mono)
  then have "2 ^ 52 \<le> rne (x * power_int 2 (- ?e))"
    by (simp only: rne_of_int)
  then have "(of_int (2 ^ 52) :: rat) \<le> of_int (rne (x * power_int 2 (- ?e)))"
    by (simp only: of_int_le_iff)
  then have "power_int (2::rat) 52 * power_int 2 ?e
               \<le> of_int (rne (x * power_int 2 (- ?e))) * power_int 2 ?e"
    using pow2_pos [of ?e] by (simp only: pow2_numeral mult_le_cancel_right_pos)
  moreover have "power_int (2::rat) 52 * power_int 2 ?e = power_int 2 (?e + 52)"
    by (simp only: pow2_add [symmetric] add.commute)
  ultimately show ?thesis
    by (simp only: double_of_pos_eq [OF assms(1)])
qed

lemma double_of_mono_pos:
  assumes "0 < x" and "x \<le> y"
  shows "double_of x \<le> double_of y"
proof -
  have y: "0 < y"
    using assms by simp
  have le: "double_exp x \<le> double_exp y"
    using assms by (rule double_exp_mono)
  show ?thesis
  proof (cases "double_exp x = double_exp y")
    case True
    let ?e = "double_exp y"
    have "x * power_int 2 (- ?e) \<le> y * power_int 2 (- ?e)"
      using assms(2) pow2_pos [of "- ?e"] by simp
    then have "rne (x * power_int 2 (- ?e)) \<le> rne (y * power_int 2 (- ?e))"
      by (rule rne_mono)
    then have "(of_int (rne (x * power_int 2 (- ?e))) :: rat)
                 \<le> of_int (rne (y * power_int 2 (- ?e)))"
      by (simp only: of_int_le_iff)
    then have "of_int (rne (x * power_int 2 (- ?e))) * power_int 2 ?e
                 \<le> of_int (rne (y * power_int 2 (- ?e))) * power_int (2::rat) ?e"
      using pow2_pos [of ?e] by (simp only: mult_le_cancel_right_pos)
    then show ?thesis
      by (simp only: double_of_pos_eq [OF assms(1)] double_of_pos_eq [OF y] True)
  next
    case False
    then have lt: "double_exp x < double_exp y"
      using le by simp
    have "- 1074 \<le> double_exp x"
      by (simp add: double_exp_def)
    then have big: "- 1074 < double_exp y"
      using lt by simp
    have "double_of x \<le> power_int 2 (double_exp x + 53)"
      using assms(1) by (rule double_of_upper)
    also have "\<dots> \<le> power_int 2 (double_exp y + 52)"
      using lt by (intro pow2_mono) simp
    also have "\<dots> \<le> double_of y"
      using y big by (rule double_of_lower)
    finally show ?thesis .
  qed
qed

lemma double_of_mono:
  assumes "x \<le> y"
  shows "double_of x \<le> double_of y"
proof -
  consider (pos) "0 < x" | (neg) "y < 0" | (mid) "x \<le> 0" "0 \<le> y"
    by linarith
  then show ?thesis
  proof cases
    case pos
    then show ?thesis
      using assms by (rule double_of_mono_pos)
  next
    case neg
    have "double_of (- y) \<le> double_of (- x)"
      using neg assms by (intro double_of_mono_pos) simp_all
    then show ?thesis
      by (simp add: double_of_minus)
  next
    case mid
    have "0 \<le> double_of (- x)"
      using mid(1) by (intro double_of_nonneg) simp
    then have "double_of x \<le> 0"
      by (simp add: double_of_minus)
    also have "0 \<le> double_of y"
      using mid(2) by (rule double_of_nonneg)
    finally show ?thesis .
  qed
qed

lemma pow2_less_imp: "power_int (2::rat) a < power_int 2 b \<Longrightarrow> a < b"
proof (rule ccontr)
  assume lt: "power_int (2::rat) a < power_int 2 b" and "\<not> a < b"
  then have "b \<le> a"
    by simp
  then have "power_int (2::rat) b \<le> power_int 2 a"
    by (rule pow2_mono)
  then show False
    using lt by simp
qed

lemma ilog2_unique:
  assumes "0 < x" and "power_int 2 k \<le> x" and "x < power_int 2 (k + 1)"
  shows "ilog2 x = k"
proof -
  have "power_int (2::rat) (ilog2 x) < power_int 2 (k + 1)"
    using ilog2_bounds(1) [OF assms(1)] assms(3) by (rule le_less_trans)
  then have a: "ilog2 x < k + 1"
    by (rule pow2_less_imp)
  have "power_int (2::rat) k < power_int 2 (ilog2 x + 1)"
    using assms(2) ilog2_bounds(2) [OF assms(1)] by (rule le_less_trans)
  then have b: "k < ilog2 x + 1"
    by (rule pow2_less_imp)
  show ?thesis
    using a b by simp
qed

lemma mantissa_upper:
  assumes "0 < x"
  shows "rne (x * power_int 2 (- double_exp x)) \<le> 2 ^ 53"
proof -
  let ?e = "double_exp x"
  have e: "ilog2 x - 52 \<le> ?e"
    using assms by (simp add: double_exp_def)
  have "x < power_int 2 (ilog2 x + 1)"
    using assms by (rule ilog2_bounds)
  also have "\<dots> \<le> power_int 2 (?e + 53)"
    using e by (intro pow2_mono) simp
  finally have "x * power_int 2 (- ?e) \<le> power_int 2 (?e + 53) * power_int 2 (- ?e)"
    using pow2_pos [of "- ?e"] by simp
  also have "\<dots> = of_int (2 ^ 53)"
    by (simp add: pow2_add [symmetric] pow2_numeral)
  finally have "rne (x * power_int 2 (- ?e)) \<le> rne (of_int (2 ^ 53))"
    by (rule rne_mono)
  then show ?thesis
    by (simp only: rne_of_int)
qed

lemma mantissa_lower:
  assumes "0 < x" and "- 1074 < double_exp x"
  shows "2 ^ 52 \<le> rne (x * power_int 2 (- double_exp x))"
proof -
  let ?e = "double_exp x"
  have e: "?e = ilog2 x - 52"
    using assms by (simp add: double_exp_def)
  have "power_int 2 (?e + 52) = power_int (2::rat) (ilog2 x)"
    by (simp add: e)
  also have "\<dots> \<le> x"
    using assms(1) by (rule ilog2_bounds)
  finally have "power_int 2 (?e + 52) * power_int 2 (- ?e) \<le> x * power_int 2 (- ?e)"
    using pow2_pos [of "- ?e"] by simp
  moreover have "power_int 2 (?e + 52) * power_int 2 (- ?e) = (of_int (2 ^ 52) :: rat)"
    by (simp add: pow2_add [symmetric] pow2_numeral)
  ultimately have "(of_int (2 ^ 52) :: rat) \<le> x * power_int 2 (- ?e)"
    by simp
  then have "rne (of_int (2 ^ 52)) \<le> rne (x * power_int 2 (- ?e))"
    by (rule rne_mono)
  then show ?thesis
    by (simp only: rne_of_int)
qed

lemma double_exp_ge: "- 1074 \<le> double_exp x"
  by (simp add: double_exp_def)

text \<open>A positive value on the grid is its own rounding.\<close>

lemma double_of_grid:
  assumes m: "0 < m" "m < 2 ^ 53" and e: "- 1074 \<le> e" and n: "e = - 1074 \<or> 2 ^ 52 \<le> m"
  shows "double_of (of_int m * power_int 2 e) = of_int m * power_int 2 e"
proof -
  let ?d = "of_int m * power_int (2::rat) e"
  have d: "0 < ?d"
    using m(1) pow2_pos [of e] by simp
  have "(of_int m :: rat) < of_int (2 ^ 53)"
    using m(2) by (simp only: of_int_less_iff)
  then have "?d < power_int 2 53 * power_int 2 e"
    using pow2_pos [of e] by (simp only: pow2_numeral mult_less_cancel_right_pos)
  also have "\<dots> = power_int 2 (e + 52 + 1)"
    by (simp only: pow2_add [symmetric]) simp
  finally have up: "?d < power_int 2 (e + 52 + 1)" .
  have "power_int (2::rat) (ilog2 ?d) < power_int 2 (e + 52 + 1)"
    using ilog2_bounds(1) [OF d] up by (rule le_less_trans)
  then have le: "ilog2 ?d \<le> e + 52"
    using pow2_less_imp [of "ilog2 ?d" "e + 52 + 1"] by simp
  have ex: "double_exp ?d = e"
  proof (cases "2 ^ 52 \<le> m")
    case True
    then have "(of_int (2 ^ 52) :: rat) \<le> of_int m"
      by (simp only: of_int_le_iff)
    then have ge: "power_int 2 52 * power_int 2 e \<le> ?d"
      using pow2_pos [of e] by (simp only: pow2_numeral mult_le_cancel_right_pos)
    have "power_int (2::rat) (e + 52) = power_int 2 52 * power_int 2 e"
      by (simp only: pow2_add [symmetric] add.commute)
    also note ge
    finally have "power_int 2 (e + 52) \<le> ?d" .
    then have "ilog2 ?d = e + 52"
      using d up by (intro ilog2_unique)
    then show ?thesis
      using d e by (simp add: double_exp_def)
  next
    case False
    then have "e = - 1074"
      using n by simp
    then show ?thesis
      using d le by (simp add: double_exp_def)
  qed
  have "?d * power_int 2 (- e) = of_int m * (power_int 2 e * power_int 2 (- e))"
    by (simp only: mult.assoc)
  also have "\<dots> = of_int m"
    by (simp add: pow2_add [symmetric])
  finally have "rne (?d * power_int 2 (- e)) = m"
    by (simp only: rne_of_int)
  then show ?thesis
    using d by (simp add: double_of_def ex)
qed

lemma double_of_idem_pos:
  assumes "0 < x"
  shows "double_of (double_of x) = double_of x"
proof -
  let ?e = "double_exp x"
  let ?m = "rne (x * power_int 2 (- ?e))"
  have dx: "double_of x = of_int ?m * power_int 2 ?e"
    using assms by (rule double_of_pos_eq)
  have m0: "0 \<le> ?m"
    using assms pow2_pos [of "- ?e"] by (intro rne_nonneg) simp
  have mu: "?m \<le> 2 ^ 53"
    using assms by (rule mantissa_upper)
  consider (zero) "?m = 0" | (top) "?m = 2 ^ 53" | (mid) "0 < ?m" "?m < 2 ^ 53"
    using m0 mu by linarith
  then show ?thesis
  proof cases
    case zero
    then have "double_of x = 0"
      by (simp add: dx)
    then show ?thesis
      by (simp add: double_of_def)
  next
    case top
    have "double_of x = power_int 2 53 * power_int 2 ?e"
      by (simp only: dx top pow2_numeral)
    also have "\<dots> = power_int 2 (52 + (?e + 1))"
      by (simp only: pow2_add [symmetric]) simp
    also have "\<dots> = of_int (2 ^ 52) * power_int 2 (?e + 1)"
      by (simp only: pow2_add pow2_numeral)
    finally have eq: "double_of x = of_int (2 ^ 52) * power_int 2 (?e + 1)" .
    have "double_of (of_int (2 ^ 52) * power_int 2 (?e + 1)) = of_int (2 ^ 52) * power_int 2 (?e + 1)"
      using double_exp_ge [of x] by (intro double_of_grid) simp_all
    then show ?thesis
      by (simp only: eq)
  next
    case mid
    have "?e = - 1074 \<or> 2 ^ 52 \<le> ?m"
      using mantissa_lower [OF assms] double_exp_ge [of x] by linarith
    then have "double_of (of_int ?m * power_int 2 ?e) = of_int ?m * power_int 2 ?e"
      using mid double_exp_ge [of x] by (intro double_of_grid)
    then show ?thesis
      by (simp only: dx)
  qed
qed

lemma double_of_idem: "double_of (double_of x) = double_of x"
proof -
  consider (pos) "0 < x" | (zero) "x = 0" | (neg) "x < 0"
    by linarith
  then show ?thesis
  proof cases
    case pos
    then show ?thesis
      by (rule double_of_idem_pos)
  next
    case zero
    then show ?thesis
      by (simp add: double_of_def)
  next
    case neg
    then have "double_of (double_of (- x)) = double_of (- x)"
      by (intro double_of_idem_pos) simp
    then show ?thesis
      by (simp add: double_of_minus)
  qed
qed

lemma is_double_double_of: "is_double (double_of x)"
  by (simp add: is_double_def double_of_idem)

lemma is_double_0: "is_double 0"
  by (simp add: is_double_def double_of_def)

lemma float_mul_nonneg: "0 \<le> a \<Longrightarrow> 0 \<le> b \<Longrightarrow> 0 \<le> float_mul a b"
  by (simp add: float_mul_def double_of_nonneg)

lemma float_add_increase:
  assumes "is_double a" and "0 \<le> b"
  shows "a \<le> float_add a b"
proof -
  have "double_of a \<le> double_of (a + b)"
    using assms(2) by (intro double_of_mono) simp
  then show ?thesis
    using assms(1) by (simp add: float_add_def is_double_def)
qed

section \<open>Vehicle: helper facts\<close>

lemma run_car_Nil: "run_car c [] = c"
  by (simp add: run_car_def)

lemma run_car_Cons: "run_car c (p # ops) = run_car (car_step c p) ops"
  by (simp add: run_car_def)

lemma update_controls_last_command: "last_command (update_controls c a) = a"
  by (simp add: update_controls_def Let_def)

lemma update_controls_same_command:
  "a = last_command c \<Longrightarrow> target_lane (update_controls c a) = target_lane c"
  by (simp add: update_controls_def Let_def)

lemma update_controls_fields:
  "car_x (update_controls c a) = car_x c"
  "car_y (update_controls c a) = car_y c"
  "car_width (update_controls c a) = car_width c"
  "car_height (update_controls c a) = car_height c"
  "velocity (update_controls c a) = velocity c"
  "max_velocity (update_controls c a) = max_velocity c"
  "acceleration (update_controls c a) = acceleration c"
  "friction (update_controls c a) = friction c"
  "default_speed (update_controls c a) = default_speed c"
  "angle (update_controls c a) = angle c"
  "lane (update_controls c a) = lane c"
  "car_lane_width (update_controls c a) = car_lane_width c"
  "lane_change_speed (update_controls c a) = lane_change_speed c"
  "braking (update_controls c a) = (a = ''BRAKE'')"
  "current_command (update_controls c a) = a"
  by (simp_all add: update_controls_def Let_def)

lemma update_controls_target_lane:
  "target_lane (update_controls c a) =
     (if a = ''SWIPE_LEFT'' \<and> a \<noteq> last_command c \<and> 0 < target_lane c
        then max 0 (target_lane c - 1)
      else if a = ''SWIPE_RIGHT'' \<and> a \<noteq> last_command c \<and> target_lane c < 2
        then min 2 (target_lane c + 1)
      else target_lane c)"
  by (simp add: update_controls_def Let_def)

lemma Car_update_steps: "Car_update c dt = lane_step (speed_step c)"
  by (simp only: Car_update_def speed_step_def lane_step_def Let_def)

lemma speed_step_fields:
  "car_x (speed_step c) = car_x c"
  "car_y (speed_step c) = car_y c"
  "car_width (speed_step c) = car_width c"
  "car_height (speed_step c) = car_height c"
  "max_velocity (speed_step c) = max_velocity c"
  "acceleration (speed_step c) = acceleration c"
  "friction (speed_step c) = friction c"
  "default_speed (speed_step c) = default_speed c"
  "angle (speed_step c) = angle c"
  "lane (speed_step c) = lane c"
  "target_lane (speed_step c) = target_lane c"
  "car_lane_width (speed_step c) = car_lane_width c"
  "lane_change_speed (speed_step c) = lane_change_speed c"
  "braking (speed_step c) = braking c"
  "current_command (speed_step c) = current_command c"
  "last_command (speed_step c) = last_command c"
  by (simp_all add: speed_step_def)

lemma speed_step_velocity:
  "velocity (speed_step c) =
     (if braking c then max 0 (velocity c - acceleration c * 4)
      else if velocity c < default_speed c
        then min (default_speed c) (velocity c + acceleration c)
      else default_speed c)"
  by (simp add: speed_step_def)

lemma lane_step_fields:
  "car_y (lane_step c) = car_y c"
  "car_width (lane_step c) = car_width c"
  "car_height (lane_step c) = car_height c"
  "velocity (lane_step c) = velocity c"
  "max_velocity (lane_step c) = max_velocity c"
  "acceleration (lane_step c) = acceleration c"
  "friction (lane_step c) = friction c"
  "default_speed (lane_step c) = default_speed c"
  "angle (lane_step c) = angle c"
  "target_lane (lane_step c) = target_lane c"
  "car_lane_width (lane_step c) = car_lane_width c"
  "lane_change_speed (lane_step c) = lane_change_speed c"
  "braking (lane_step c) = braking c"
  "current_command (lane_step c) = current_command c"
  "last_command (lane_step c) = last_command c"
  by (simp_all add: lane_step_def)

lemma lane_step_lane: "lane (lane_step c) = lane c \<or> lane (lane_step c) = target_lane c"
  by (simp add: lane_step_def)

lemma reset_position_fields:
  "car_x (reset_position c x0 y0) = 1 * car_lane_width c + car_lane_width c div 2"
  "car_y (reset_position c x0 y0) = y0"
  "car_width (reset_position c x0 y0) = car_width c"
  "car_height (reset_position c x0 y0) = car_height c"
  "velocity (reset_position c x0 y0) = 0"
  "max_velocity (reset_position c x0 y0) = max_velocity c"
  "acceleration (reset_position c x0 y0) = acceleration c"
  "friction (reset_position c x0 y0) = friction c"
  "default_speed (reset_position c x0 y0) = default_speed c"
  "angle (reset_position c x0 y0) = angle c"
  "lane (reset_position c x0 y0) = 1"
  "target_lane (reset_position c x0 y0) = 1"
  "car_lane_width (reset_position c x0 y0) = car_lane_width c"
  "lane_change_speed (reset_position c x0 y0) = lane_change_speed c"
  "braking (reset_position c x0 y0) = braking c"
  "current_command (reset_position c x0 y0) = current_command c"
  "last_command (reset_position c x0 y0) = ''NONE''"
  by (simp_all add: reset_position_def Let_def)

section \<open>Vehicle: the state invariant\<close>

lemma car_ok_init: "car_ok (Car_init x0 y0 w h)"
  by (simp add: car_ok_def Car_init_def)

lemma car_ok_update_controls: "car_ok c \<Longrightarrow> car_ok (update_controls c a)"
  by (simp add: car_ok_def update_controls_fields update_controls_target_lane)

lemma car_ok_speed_step: "car_ok c \<Longrightarrow> car_ok (speed_step c)"
  by (simp add: car_ok_def speed_step_fields speed_step_velocity)

lemma car_ok_lane_step:
  assumes "car_ok c"
  shows "car_ok (lane_step c)"
proof -
  have "0 \<le> lane (lane_step c) \<and> lane (lane_step c) \<le> 2"
    using assms lane_step_lane [of c] by (auto simp add: car_ok_def)
  then show ?thesis
    using assms by (simp add: car_ok_def lane_step_fields)
qed

lemma car_ok_Car_update: "car_ok c \<Longrightarrow> car_ok (Car_update c dt)"
  by (simp add: Car_update_steps car_ok_speed_step car_ok_lane_step)

lemma car_ok_reset_position: "car_ok c \<Longrightarrow> car_ok (reset_position c x0 y0)"
  by (simp add: car_ok_def reset_position_fields)

lemma car_ok_step: "car_ok c \<Longrightarrow> car_ok (car_step c p)"
  by (cases p) (simp_all add: car_ok_update_controls car_ok_Car_update car_ok_reset_position)

lemma car_ok_run: "car_ok c \<Longrightarrow> car_ok (run_car c ops)"
  by (induction ops arbitrary: c) (simp_all add: run_car_Nil run_car_Cons car_ok_step)

text \<open>
  Claim C3. After every sequence of \<open>update_controls\<close>, \<open>update\<close> and \<open>reset_position\<close>
  calls from the initial vehicle state, with any commands and any time deltas, the lane
  and the target lane are 0, 1 or 2 and the velocity lies between 0 and
  \<open>max_velocity\<close>. Every prefix of a sequence is a sequence, so this holds after each
  call.
\<close>

theorem vehicle_invariant:
  "lane (run_car (Car_init x0 y0 w h) ops) \<in> {0, 1, 2}
   \<and> target_lane (run_car (Car_init x0 y0 w h) ops) \<in> {0, 1, 2}
   \<and> 0 \<le> velocity (run_car (Car_init x0 y0 w h) ops)
   \<and> velocity (run_car (Car_init x0 y0 w h) ops)
        \<le> max_velocity (run_car (Car_init x0 y0 w h) ops)"
proof -
  have "car_ok (run_car (Car_init x0 y0 w h) ops)"
    by (rule car_ok_run) (rule car_ok_init)
  then show ?thesis
    by (auto simp add: car_ok_def)
qed

theorem vehicle_invariant_witness:
  "lane (run_car (Car_init 300 650 45 70)
      [UpdateControls ''SWIPE_RIGHT'', Update (1 / 60), UpdateControls ''BRAKE'']) \<in> {0, 1, 2}
   \<and> target_lane (run_car (Car_init 300 650 45 70)
      [UpdateControls ''SWIPE_RIGHT'', Update (1 / 60), UpdateControls ''BRAKE'']) = 2
   \<and> velocity (run_car (Car_init 300 650 45 70)
      [UpdateControls ''SWIPE_RIGHT'', Update (1 / 60), UpdateControls ''BRAKE''])
        \<le> max_velocity (run_car (Car_init 300 650 45 70)
      [UpdateControls ''SWIPE_RIGHT'', Update (1 / 60), UpdateControls ''BRAKE''])"
proof -
  have t: "target_lane (run_car (Car_init 300 650 45 70)
      [UpdateControls ''SWIPE_RIGHT'', Update (1 / 60), UpdateControls ''BRAKE'']) = 2"
    by (simp add: run_car_def Car_update_steps update_controls_target_lane
          update_controls_last_command lane_step_fields speed_step_fields Car_init_def)
  show ?thesis
    using vehicle_invariant [of 300 650 45 70
        "[UpdateControls ''SWIPE_RIGHT'', Update (1 / 60), UpdateControls ''BRAKE'']"] t
    by simp
qed

section \<open>Vehicle: braking\<close>

lemma braking_updates:
  "braking c \<Longrightarrow> 0 \<le> velocity c \<Longrightarrow> acceleration c = 2 / 10 \<Longrightarrow>
   braking (run_car c (map Update dts))
   \<and> velocity (run_car c (map Update dts))
       = max 0 (velocity c - 4 / 5 * of_nat (length dts))"
proof (induction dts arbitrary: c)
  case Nil
  then show ?case by (simp add: run_car_Nil)
next
  case (Cons dt dts)
  have b: "braking (Car_update c dt)"
    using Cons.prems by (simp add: Car_update_steps lane_step_fields speed_step_fields)
  have a: "acceleration (Car_update c dt) = 2 / 10"
    using Cons.prems by (simp add: Car_update_steps lane_step_fields speed_step_fields)
  have v: "velocity (Car_update c dt) = max 0 (velocity c - 4 / 5)"
    using Cons.prems by (simp add: Car_update_steps lane_step_fields speed_step_velocity)
  have v0: "0 \<le> velocity (Car_update c dt)"
    by (simp add: v)
  show ?case
    using Cons.IH [OF b v0 a] v Cons.prems(2)
    by (simp add: run_car_Cons max_def algebra_simps)
qed

text \<open>
  Claim C4. From velocity 3 with braking asserted and acceleration 0.2, repeated
  \<open>Car.update\<close> calls (with any time deltas) leave velocity \<open>3 - 0.8 n\<close> after \<open>n < 4\<close>
  calls and exactly 0 after 4 calls and after every further call; braking stays asserted,
  since \<open>Car.update\<close> does not write the flag.
\<close>

theorem braking_stop_time:
  assumes "velocity c = 3" and "braking c" and "acceleration c = 2 / 10"
  shows "(4 \<le> length dts \<longrightarrow> velocity (run_car c (map Update dts)) = 0)
       \<and> (length dts < 4 \<longrightarrow>
            velocity (run_car c (map Update dts)) = 3 - 4 / 5 * of_nat (length dts))
       \<and> braking (run_car c (map Update dts))"
proof -
  have v0: "0 \<le> velocity c"
    using assms(1) by simp
  note run = braking_updates [OF assms(2) v0 assms(3), of dts]
  have vel: "velocity (run_car c (map Update dts)) = max 0 (3 - 4 / 5 * of_nat (length dts))"
    using run assms(1) by simp
  have late: "4 \<le> length dts \<longrightarrow> velocity (run_car c (map Update dts)) = 0"
  proof
    assume "4 \<le> length dts"
    then have "(4::rat) \<le> of_nat (length dts)"
      by linarith
    then show "velocity (run_car c (map Update dts)) = 0"
      by (simp add: vel max_def)
  qed
  have early: "length dts < 4 \<longrightarrow>
            velocity (run_car c (map Update dts)) = 3 - 4 / 5 * of_nat (length dts)"
  proof
    assume "length dts < 4"
    then have "of_nat (length dts) \<le> (3::rat)"
      by linarith
    then show "velocity (run_car c (map Update dts)) = 3 - 4 / 5 * of_nat (length dts)"
      by (simp add: vel max_def)
  qed
  show ?thesis
    using late early run by simp
qed

theorem braking_stop_time_witness:
  "velocity (run_car ((Car_init 300 650 45 70)\<lparr>velocity := 3, braking := True\<rparr>)
      (map Update [1 / 60, 1 / 60, 1 / 60, 1 / 60])) = 0
   \<and> velocity (run_car ((Car_init 300 650 45 70)\<lparr>velocity := 3, braking := True\<rparr>)
      (map Update [1 / 60, 1 / 60, 1 / 60])) = 3 / 5
   \<and> velocity (run_car ((Car_init 300 650 45 70)\<lparr>velocity := 3, braking := True\<rparr>)
      (map Update [1 / 60, 1 / 60, 1 / 60, 1 / 60, 1 / 60, 1 / 60])) = 0"
proof -
  have h: "velocity ((Car_init 300 650 45 70)\<lparr>velocity := 3, braking := True\<rparr>) = 3"
          "braking ((Car_init 300 650 45 70)\<lparr>velocity := 3, braking := True\<rparr>)"
          "acceleration ((Car_init 300 650 45 70)\<lparr>velocity := 3, braking := True\<rparr>) = 2 / 10"
    by (simp_all add: Car_init_def)
  show ?thesis
    using braking_stop_time [OF h, of "[1 / 60, 1 / 60, 1 / 60, 1 / 60]"]
          braking_stop_time [OF h, of "[1 / 60, 1 / 60, 1 / 60]"]
          braking_stop_time [OF h, of "[1 / 60, 1 / 60, 1 / 60, 1 / 60, 1 / 60, 1 / 60]"]
    by simp
qed

section \<open>Vehicle: lane-change debounce\<close>

text \<open>
  Claim C2. \<open>update_controls\<close> changes \<open>target_lane\<close> only if the command differs from
  \<open>last_command\<close>; when the command is SWIPE_LEFT or SWIPE_RIGHT, differs from
  \<open>last_command\<close>, and the target lane is one of 0, 1, 2, SWIPE_LEFT gives
  \<open>max 0 (target_lane - 1)\<close> and SWIPE_RIGHT gives \<open>min 2 (target_lane + 1)\<close>; a command
  that is neither leaves the target lane alone; a second call with the same command
  changes nothing more; and after every call, whatever the command, \<open>last_command\<close> is
  the received command.
\<close>

theorem lane_change_debounce:
  "(target_lane (update_controls c a) \<noteq> target_lane c \<longrightarrow> a \<noteq> last_command c)
   \<and> ((a = ''SWIPE_LEFT'' \<or> a = ''SWIPE_RIGHT'') \<and> a \<noteq> last_command c
        \<and> target_lane c \<in> {0, 1, 2} \<longrightarrow>
        target_lane (update_controls c a) =
          (if a = ''SWIPE_LEFT'' then max 0 (target_lane c - 1)
           else min 2 (target_lane c + 1)))
   \<and> (a \<noteq> ''SWIPE_LEFT'' \<and> a \<noteq> ''SWIPE_RIGHT'' \<longrightarrow>
        target_lane (update_controls c a) = target_lane c)
   \<and> target_lane (update_controls (update_controls c a) a) = target_lane (update_controls c a)
   \<and> last_command (update_controls c a) = a
   \<and> last_command (update_controls (update_controls c a) a) = a"
proof -
  have one: "target_lane (update_controls c a) \<noteq> target_lane c \<longrightarrow> a \<noteq> last_command c"
    using update_controls_same_command [of a c] by blast
  have two: "(a = ''SWIPE_LEFT'' \<or> a = ''SWIPE_RIGHT'') \<and> a \<noteq> last_command c
        \<and> target_lane c \<in> {0, 1, 2} \<longrightarrow>
        target_lane (update_controls c a) =
          (if a = ''SWIPE_LEFT'' then max 0 (target_lane c - 1)
           else min 2 (target_lane c + 1))"
    by (auto simp add: update_controls_target_lane)
  have three: "a \<noteq> ''SWIPE_LEFT'' \<and> a \<noteq> ''SWIPE_RIGHT'' \<longrightarrow>
        target_lane (update_controls c a) = target_lane c"
    by (simp add: update_controls_target_lane)
  have four: "target_lane (update_controls (update_controls c a) a)
                 = target_lane (update_controls c a)"
    by (rule update_controls_same_command) (simp add: update_controls_last_command)
  show ?thesis
    using one two three four by (simp add: update_controls_last_command)
qed

theorem lane_change_debounce_witness:
  "target_lane (update_controls (Car_init 300 650 45 70) ''SWIPE_LEFT'') = 0
   \<and> target_lane (update_controls (update_controls (Car_init 300 650 45 70) ''SWIPE_LEFT'')
        ''SWIPE_LEFT'') = 0
   \<and> last_command (update_controls (update_controls (Car_init 300 650 45 70) ''SWIPE_LEFT'')
        ''SWIPE_LEFT'') = ''SWIPE_LEFT''
   \<and> target_lane (update_controls (Car_init 300 650 45 70) ''CENTER'') = 1
   \<and> last_command (update_controls (Car_init 300 650 45 70) ''CENTER'') = ''CENTER''"
proof -
  have s: "target_lane (Car_init 300 650 45 70) = 1"
          "last_command (Car_init 300 650 45 70) = ''NONE''"
    by (simp_all add: Car_init_def)
  show ?thesis
    using lane_change_debounce [of "Car_init 300 650 45 70" "''SWIPE_LEFT''"]
          lane_change_debounce [of "Car_init 300 650 45 70" "''CENTER''"] s
    by simp
qed

section \<open>Vehicle: unknown commands\<close>

lemma observable_speed_step: "observable (speed_step c) = speed_step (observable c)"
  by (simp add: observable_def speed_step_def)

lemma observable_lane_step: "observable (lane_step c) = lane_step (observable c)"
  by (simp add: observable_def lane_step_def)

lemma observable_Car_update: "observable (Car_update c dt) = Car_update (observable c) dt"
  by (simp add: Car_update_steps observable_speed_step observable_lane_step)

lemma observable_reset_position:
  "observable (reset_position c x0 y0) = observable (reset_position (observable c) x0 y0)"
  by (simp add: observable_def reset_position_def Let_def)

lemma last_command_Car_update: "last_command (Car_update c dt) = last_command c"
  by (simp add: Car_update_steps speed_step_fields lane_step_fields)

lemma observable_update_controls:
  "observable (update_controls c a) =
     (observable c)\<lparr>target_lane := target_lane (update_controls c a), braking := (a = ''BRAKE'')\<rparr>"
  by (simp add: observable_def update_controls_def Let_def)

lemma target_lane_observable: "target_lane (observable c) = target_lane c"
  by (simp add: observable_def)

lemma alikeD1: "alike c d \<Longrightarrow> observable c = observable d"
  unfolding alike_def by (rule conjunct1)

lemma alikeD2:
  "alike c d \<Longrightarrow>
   last_command c = last_command d \<or> (\<not> swipe (last_command c) \<and> \<not> swipe (last_command d))"
  unfolding alike_def by (rule conjunct2)

lemma alikeI:
  "observable c = observable d \<Longrightarrow>
   last_command c = last_command d \<or> (\<not> swipe (last_command c) \<and> \<not> swipe (last_command d)) \<Longrightarrow>
   alike c d"
  unfolding alike_def by (rule conjI)

lemma alike_update_controls:
  assumes "alike c d"
  shows "alike (update_controls c a) (update_controls d a)"
proof (rule alikeI)
  have obs: "observable c = observable d"
    using assms by (rule alikeD1)
  have "target_lane (observable c) = target_lane (observable d)"
    by (simp only: obs)
  then have tl: "target_lane c = target_lane d"
    by (simp only: target_lane_observable)
  have fresh: "swipe a \<Longrightarrow> (a = last_command c) = (a = last_command d)"
    using alikeD2 [OF assms] by auto
  have tlu: "target_lane (update_controls c a) = target_lane (update_controls d a)"
  proof (cases "swipe a")
    case True
    have eq: "(a \<noteq> last_command c) = (a \<noteq> last_command d)"
      using fresh [OF True] by (rule arg_cong)
    show ?thesis
      unfolding update_controls_target_lane eq tl by (rule refl)
  next
    case False
    then show ?thesis
      using tl by (simp add: update_controls_target_lane swipe_def)
  qed
  show "observable (update_controls c a) = observable (update_controls d a)"
    by (simp only: observable_update_controls obs tlu)
  show "last_command (update_controls c a) = last_command (update_controls d a)
      \<or> (\<not> swipe (last_command (update_controls c a))
          \<and> \<not> swipe (last_command (update_controls d a)))"
    by (simp add: update_controls_last_command)
qed

lemma alike_Car_update: "alike c d \<Longrightarrow> alike (Car_update c dt) (Car_update d dt)"
  by (simp add: alike_def observable_Car_update last_command_Car_update)

lemma alike_reset_position:
  assumes "alike c d"
  shows "alike (reset_position c x0 y0) (reset_position d x0 y0)"
proof -
  have "observable (reset_position (observable c) x0 y0)
          = observable (reset_position (observable d) x0 y0)"
    by (simp only: alikeD1 [OF assms])
  then have "observable (reset_position c x0 y0) = observable (reset_position d x0 y0)"
    by (simp only: observable_reset_position [symmetric])
  then show ?thesis
    by (simp add: alike_def reset_position_fields)
qed

lemma alike_step: "alike c d \<Longrightarrow> alike (car_step c p) (car_step d p)"
  by (cases p) (simp_all add: alike_update_controls alike_Car_update alike_reset_position)

lemma alike_run: "alike c d \<Longrightarrow> alike (run_car c ops) (run_car d ops)"
  by (induction ops arbitrary: c d) (simp_all add: run_car_Nil run_car_Cons alike_step)

lemma alike_unknown:
  assumes "a \<notin> {''BRAKE'', ''SWIPE_LEFT'', ''SWIPE_RIGHT'', ''CENTER''}"
  shows "alike (update_controls c a) (update_controls c ''CENTER'')"
proof -
  have "target_lane (update_controls c a) = target_lane (update_controls c ''CENTER'')"
    using assms by (simp add: update_controls_target_lane)
  then have "observable (update_controls c a) = observable (update_controls c ''CENTER'')"
    using assms by (simp add: observable_update_controls)
  moreover have "\<not> swipe a" "\<not> swipe ''CENTER''"
    using assms by (simp_all add: swipe_def)
  ultimately show ?thesis
    by (simp add: alike_def update_controls_last_command)
qed

text \<open>
  Claim C7. For a command \<open>a\<close> outside BRAKE, SWIPE_LEFT, SWIPE_RIGHT and CENTER,
  \<open>update_controls\<close> has no failing branch (it is a total function of the state) and
  gives the braking flag, target lane and lane that CENTER gives; and after any further
  sequence of \<open>update_controls\<close>, \<open>update\<close> and \<open>reset_position\<close> calls the two vehicles
  agree in every field other than the two remembered command strings.
\<close>

theorem unknown_command_as_center:
  assumes "a \<notin> {''BRAKE'', ''SWIPE_LEFT'', ''SWIPE_RIGHT'', ''CENTER''}"
  shows "braking (update_controls c a) = braking (update_controls c ''CENTER'')
       \<and> target_lane (update_controls c a) = target_lane (update_controls c ''CENTER'')
       \<and> lane (update_controls c a) = lane (update_controls c ''CENTER'')
       \<and> observable (run_car (update_controls c a) ops)
           = observable (run_car (update_controls c ''CENTER'') ops)"
proof -
  have now: "alike (update_controls c a) (update_controls c ''CENTER'')"
    using assms by (rule alike_unknown)
  then have later: "alike (run_car (update_controls c a) ops)
                      (run_car (update_controls c ''CENTER'') ops)"
    by (rule alike_run)
  have tl: "target_lane (update_controls c a) = target_lane (update_controls c ''CENTER'')"
    using assms by (simp add: update_controls_target_lane)
  show ?thesis
    using assms alikeD1 [OF later] tl by (simp add: update_controls_fields)
qed

theorem unknown_command_as_center_witness:
  "observable (run_car (update_controls (Car_init 300 650 45 70) ''NO_ACTION'')
       [UpdateControls ''SWIPE_LEFT'', Update (1 / 60)])
   = observable (run_car (update_controls (Car_init 300 650 45 70) ''CENTER'')
       [UpdateControls ''SWIPE_LEFT'', Update (1 / 60)])
   \<and> target_lane (run_car (update_controls (Car_init 300 650 45 70) ''NO_ACTION'')
       [UpdateControls ''SWIPE_LEFT'', Update (1 / 60)]) = 0"
proof -
  have a: "''NO_ACTION'' \<notin> {''BRAKE'', ''SWIPE_LEFT'', ''SWIPE_RIGHT'', ''CENTER''}"
    by simp
  have t: "target_lane (run_car (update_controls (Car_init 300 650 45 70) ''NO_ACTION'')
       [UpdateControls ''SWIPE_LEFT'', Update (1 / 60)]) = 0"
    by (simp add: run_car_def Car_update_steps speed_step_fields lane_step_fields
          update_controls_target_lane update_controls_last_command Car_init_def)
  show ?thesis
    using unknown_command_as_center [OF a, of "Car_init 300 650 45 70"
        "[UpdateControls ''SWIPE_LEFT'', Update (1 / 60)]"] t
    by simp
qed

section \<open>Road: helper facts\<close>

lemma run_road_Nil: "run_road r [] = r"
  by (simp add: run_road_def)

lemma run_road_Cons: "run_road r (p # ops) = run_road (road_step r p) ops"
  by (simp add: run_road_def)

lemma Road_update_steps:
  "Road_update r dt car_speed dr =
     update_particles
       (obstacles_step (spawn_step (score_step (scroll_step r dt car_speed) dt car_speed) dt dr)
          dt car_speed) dt dr"
  by (simp only: Road_update_def scroll_step_def score_step_def spawn_step_def
        obstacles_step_def Let_def)

lemma scroll_step_fields:
  "road_width (scroll_step r dt v) = road_width r"
  "road_height (scroll_step r dt v) = road_height r"
  "lane_width (scroll_step r dt v) = lane_width r"
  "num_lanes (scroll_step r dt v) = num_lanes r"
  "line_spacing (scroll_step r dt v) = line_spacing r"
  "obstacles (scroll_step r dt v) = obstacles r"
  "obstacle_spawn_timer (scroll_step r dt v) = obstacle_spawn_timer r"
  "obstacle_spawn_interval (scroll_step r dt v) = obstacle_spawn_interval r"
  "obstacle_speed (scroll_step r dt v) = obstacle_speed r"
  "score (scroll_step r dt v) = score r"
  "distance_traveled (scroll_step r dt v) = distance_traveled r"
  "multiplier (scroll_step r dt v) = multiplier r"
  "bonus_spawn_chance (scroll_step r dt v) = bonus_spawn_chance r"
  "road_particles (scroll_step r dt v) = road_particles r"
  "explosion_effects (scroll_step r dt v) = explosion_effects r"
  by (simp_all add: scroll_step_def)

lemma score_step_fields:
  "road_width (score_step r dt v) = road_width r"
  "road_height (score_step r dt v) = road_height r"
  "lane_width (score_step r dt v) = lane_width r"
  "num_lanes (score_step r dt v) = num_lanes r"
  "road_y_offset (score_step r dt v) = road_y_offset r"
  "line_spacing (score_step r dt v) = line_spacing r"
  "obstacles (score_step r dt v) = obstacles r"
  "obstacle_spawn_timer (score_step r dt v) = obstacle_spawn_timer r"
  "obstacle_spawn_interval (score_step r dt v) = obstacle_spawn_interval r"
  "obstacle_speed (score_step r dt v) = obstacle_speed r"
  "score (score_step r dt v) =
     score r + py_int (float_mul (float_mul (float_mul v dt) 15) (multiplier r))"
  "distance_traveled (score_step r dt v) =
     float_add (distance_traveled r) (float_mul (float_mul v dt) 15)"
  "multiplier (score_step r dt v) = multiplier r"
  "bonus_spawn_chance (score_step r dt v) = bonus_spawn_chance r"
  "road_particles (score_step r dt v) = road_particles r"
  "explosion_effects (score_step r dt v) = explosion_effects r"
  by (simp_all add: score_step_def)

lemma spawn_obstacle_fields:
  "road_width (spawn_obstacle r l rd an) = road_width r"
  "road_height (spawn_obstacle r l rd an) = road_height r"
  "lane_width (spawn_obstacle r l rd an) = lane_width r"
  "num_lanes (spawn_obstacle r l rd an) = num_lanes r"
  "road_y_offset (spawn_obstacle r l rd an) = road_y_offset r"
  "line_spacing (spawn_obstacle r l rd an) = line_spacing r"
  "obstacle_spawn_timer (spawn_obstacle r l rd an) = obstacle_spawn_timer r"
  "obstacle_spawn_interval (spawn_obstacle r l rd an) = obstacle_spawn_interval r"
  "obstacle_speed (spawn_obstacle r l rd an) = obstacle_speed r"
  "score (spawn_obstacle r l rd an) = score r"
  "distance_traveled (spawn_obstacle r l rd an) = distance_traveled r"
  "multiplier (spawn_obstacle r l rd an) = multiplier r"
  "bonus_spawn_chance (spawn_obstacle r l rd an) = bonus_spawn_chance r"
  "road_particles (spawn_obstacle r l rd an) = road_particles r"
  "explosion_effects (spawn_obstacle r l rd an) = explosion_effects r"
  by (simp_all add: spawn_obstacle_def Let_def)

lemma spawn_obstacle_obstacles:
  "obstacles (spawn_obstacle r l rd an) =
     obstacles r @
       [Obstacle_init (l * lane_width r + lane_width r div 2) (- 100) 50 80 (obstacle_speed r)
          (if rd < 33 / 100 then ''truck'' else if rd < 67 / 100 then ''barrier'' else ''car'')
          an]"
  by (simp add: spawn_obstacle_def Let_def)

lemma spawn_step_fields:
  "road_width (spawn_step r dt dr) = road_width r"
  "road_height (spawn_step r dt dr) = road_height r"
  "lane_width (spawn_step r dt dr) = lane_width r"
  "num_lanes (spawn_step r dt dr) = num_lanes r"
  "road_y_offset (spawn_step r dt dr) = road_y_offset r"
  "line_spacing (spawn_step r dt dr) = line_spacing r"
  "obstacle_spawn_interval (spawn_step r dt dr) = obstacle_spawn_interval r"
  "obstacle_speed (spawn_step r dt dr) = obstacle_speed r"
  "score (spawn_step r dt dr) = score r"
  "distance_traveled (spawn_step r dt dr) = distance_traveled r"
  "multiplier (spawn_step r dt dr) = multiplier r"
  "bonus_spawn_chance (spawn_step r dt dr) = bonus_spawn_chance r"
  "road_particles (spawn_step r dt dr) = road_particles r"
  "explosion_effects (spawn_step r dt dr) = explosion_effects r"
  by (simp_all add: spawn_step_def spawn_obstacle_fields)

lemma spawn_step_obstacles:
  "obstacles (spawn_step r dt dr) =
     (if float_add (obstacle_spawn_timer r) (float_mul dt 1000)
           \<ge> of_int (obstacle_spawn_interval r)
        then obstacles (spawn_obstacle r (spawn_lane dr) (spawn_rand dr) (spawn_anim dr))
      else obstacles r)"
  by (simp add: spawn_step_def spawn_obstacle_obstacles)

lemma obstacles_step_fields:
  "road_width (obstacles_step r dt v) = road_width r"
  "road_height (obstacles_step r dt v) = road_height r"
  "lane_width (obstacles_step r dt v) = lane_width r"
  "num_lanes (obstacles_step r dt v) = num_lanes r"
  "road_y_offset (obstacles_step r dt v) = road_y_offset r"
  "line_spacing (obstacles_step r dt v) = line_spacing r"
  "obstacles (obstacles_step r dt v) = update_obstacles dt v (obstacles r)"
  "obstacle_spawn_timer (obstacles_step r dt v) = obstacle_spawn_timer r"
  "obstacle_spawn_interval (obstacles_step r dt v) = obstacle_spawn_interval r"
  "obstacle_speed (obstacles_step r dt v) = obstacle_speed r"
  "score (obstacles_step r dt v) = score r"
  "distance_traveled (obstacles_step r dt v) = distance_traveled r"
  "multiplier (obstacles_step r dt v) = multiplier r"
  "bonus_spawn_chance (obstacles_step r dt v) = bonus_spawn_chance r"
  "road_particles (obstacles_step r dt v) = road_particles r"
  "explosion_effects (obstacles_step r dt v) = explosion_effects r"
  by (simp_all add: obstacles_step_def)

lemma update_particles_fields:
  "road_width (update_particles r dt dr) = road_width r"
  "road_height (update_particles r dt dr) = road_height r"
  "lane_width (update_particles r dt dr) = lane_width r"
  "num_lanes (update_particles r dt dr) = num_lanes r"
  "road_y_offset (update_particles r dt dr) = road_y_offset r"
  "line_spacing (update_particles r dt dr) = line_spacing r"
  "obstacles (update_particles r dt dr) = obstacles r"
  "obstacle_spawn_timer (update_particles r dt dr) = obstacle_spawn_timer r"
  "obstacle_spawn_interval (update_particles r dt dr) = obstacle_spawn_interval r"
  "obstacle_speed (update_particles r dt dr) = obstacle_speed r"
  "score (update_particles r dt dr) = score r"
  "distance_traveled (update_particles r dt dr) = distance_traveled r"
  "multiplier (update_particles r dt dr) = multiplier r"
  "bonus_spawn_chance (update_particles r dt dr) = bonus_spawn_chance r"
  "explosion_effects (update_particles r dt dr) = explosion_effects r"
  by (simp_all add: update_particles_def Let_def)

lemmas road_step_fields =
  update_particles_fields obstacles_step_fields spawn_step_fields score_step_fields
  scroll_step_fields

lemma Road_update_score:
  "score (Road_update r dt v dr) =
     score r + py_int (float_mul (float_mul (float_mul v dt) 15) (multiplier r))"
  by (simp add: Road_update_steps road_step_fields)

lemma Road_update_distance:
  "distance_traveled (Road_update r dt v dr) =
     float_add (distance_traveled r) (float_mul (float_mul v dt) 15)"
  by (simp add: Road_update_steps road_step_fields)

lemma Road_update_obstacles:
  "obstacles (Road_update r dt v dr) =
     update_obstacles dt v
       (if float_add (obstacle_spawn_timer r) (float_mul dt 1000)
             \<ge> of_int (obstacle_spawn_interval r)
          then obstacles (spawn_obstacle r (spawn_lane dr) (spawn_rand dr) (spawn_anim dr))
        else obstacles r)"
  by (simp add: Road_update_steps road_step_fields spawn_step_obstacles spawn_obstacle_obstacles)

lemma Road_reset_fields:
  "road_width (Road_reset r) = road_width r"
  "road_height (Road_reset r) = road_height r"
  "lane_width (Road_reset r) = lane_width r"
  "num_lanes (Road_reset r) = num_lanes r"
  "road_y_offset (Road_reset r) = road_y_offset r"
  "line_spacing (Road_reset r) = line_spacing r"
  "obstacles (Road_reset r) = []"
  "obstacle_spawn_timer (Road_reset r) = 0"
  "obstacle_spawn_interval (Road_reset r) = obstacle_spawn_interval r"
  "obstacle_speed (Road_reset r) = obstacle_speed r"
  "score (Road_reset r) = 0"
  "distance_traveled (Road_reset r) = 0"
  "multiplier (Road_reset r) = 1"
  "bonus_spawn_chance (Road_reset r) = bonus_spawn_chance r"
  "road_particles (Road_reset r) = []"
  "explosion_effects (Road_reset r) = []"
  by (simp_all add: Road_reset_def)

lemma py_int_nonneg: "0 \<le> q \<Longrightarrow> py_int q = \<lfloor>q\<rfloor>"
  by (simp add: py_int_def)

section \<open>Road: spawning\<close>

text \<open>
  Claim C5. The obstacle \<open>spawn_obstacle\<close> appends has width 50, height 80, ordinate
  -100 and is active; with the lane draw \<open>l\<close> in the range of
  \<open>randint(0, num_lanes - 1)\<close> and three lanes, \<open>l\<close> is 0, 1 or 2 and the abscissa is
  \<open>l * lane_width + lane_width div 2\<close>; the type is truck when the draw is below 0.33,
  barrier when it is below 0.67 and car otherwise; the point values are truck 20,
  barrier 5, car 10.
\<close>

theorem spawn_postcondition:
  assumes "0 \<le> l" and "l \<le> num_lanes r - 1" and "num_lanes r = 3"
  shows "obstacles (spawn_obstacle r l rd an)
           = obstacles r @ [last (obstacles (spawn_obstacle r l rd an))]
       \<and> ob_width (last (obstacles (spawn_obstacle r l rd an))) = 50
       \<and> ob_height (last (obstacles (spawn_obstacle r l rd an))) = 80
       \<and> ob_y (last (obstacles (spawn_obstacle r l rd an))) = - 100
       \<and> active (last (obstacles (spawn_obstacle r l rd an)))
       \<and> l \<in> {0, 1, 2}
       \<and> ob_x (last (obstacles (spawn_obstacle r l rd an)))
           = l * lane_width r + lane_width r div 2
       \<and> obstacle_type (last (obstacles (spawn_obstacle r l rd an)))
           = (if rd < 33 / 100 then ''truck'' else if rd < 67 / 100 then ''barrier'' else ''car'')
       \<and> map_of (point_values (last (obstacles (spawn_obstacle r l rd an)))) ''truck'' = Some 20
       \<and> map_of (point_values (last (obstacles (spawn_obstacle r l rd an)))) ''barrier'' = Some 5
       \<and> map_of (point_values (last (obstacles (spawn_obstacle r l rd an)))) ''car'' = Some 10"
proof -
  have "l \<in> {0, 1, 2}"
    using assms by auto
  then show ?thesis
    by (simp add: spawn_obstacle_obstacles Obstacle_init_def)
qed

theorem spawn_postcondition_witness:
  "obstacles (spawn_obstacle (Road_init 600 800) 2 (1 / 2) 0)
     = [last (obstacles (spawn_obstacle (Road_init 600 800) 2 (1 / 2) 0))]
   \<and> ob_x (last (obstacles (spawn_obstacle (Road_init 600 800) 2 (1 / 2) 0))) = 500
   \<and> ob_y (last (obstacles (spawn_obstacle (Road_init 600 800) 2 (1 / 2) 0))) = - 100
   \<and> obstacle_type (last (obstacles (spawn_obstacle (Road_init 600 800) 2 (1 / 2) 0)))
       = ''barrier''"
proof -
  have h: "(0::int) \<le> 2" "2 \<le> num_lanes (Road_init 600 800) - 1"
          "num_lanes (Road_init 600 800) = 3"
    by (simp_all add: Road_init_def)
  have f: "lane_width (Road_init 600 800) = 200" "obstacles (Road_init 600 800) = []"
    by (simp_all add: Road_init_def)
  show ?thesis
    using spawn_postcondition [OF h, of "1 / 2" 0] f by simp
qed

section \<open>Road: obstacle advance and expiry\<close>

lemma Obstacle_update_y:
  "ob_y (Obstacle_update ob dt v) = float_add (ob_y ob) (float_mul (float_mul v dt) 150)"
  by (simp add: Obstacle_update_def Let_def)

lemma Obstacle_update_active:
  "active (Obstacle_update ob dt v) \<longleftrightarrow>
     active ob \<and> float_add (ob_y ob) (float_mul (float_mul v dt) 150) \<le> 800"
  by (auto simp add: Obstacle_update_def Let_def)

lemma update_obstacles_filter:
  "\<forall>ob \<in> set obs. active ob \<Longrightarrow>
   update_obstacles dt v obs =
     filter (\<lambda>ob. ob_y ob \<le> 800)
       (map (\<lambda>ob. ob\<lparr>ob_y := float_add (ob_y ob) (float_mul (float_mul v dt) 150)\<rparr>) obs)"
  by (induction obs) (auto simp add: Obstacle_update_def Let_def)

lemma update_obstacles_active: "\<forall>ob \<in> set (update_obstacles dt v obs). active ob"
  by (induction obs) (auto simp add: Let_def)

lemma spawn_obstacle_active:
  "\<forall>ob \<in> set (obstacles r). active ob \<Longrightarrow>
   \<forall>ob \<in> set (obstacles (spawn_obstacle r l rd an)). active ob"
  by (simp add: spawn_obstacle_obstacles Obstacle_init_def)

text \<open>
  Claim C6, as the code has it. On a road whose listed obstacles are all active (true of
  every road the constructor, \<open>spawn_obstacle\<close>, \<open>update\<close> and \<open>reset\<close> produce, see
  \<open>road_ok_reachable\<close> below), \<open>Road.update\<close> applied to the list as it stands after the
  spawn block gives each obstacle the ordinate \<open>y + v * dt * 150\<close> computed in floats
  (the two products and the sum each rounded to the nearest double), deactivates it
  exactly when this new ordinate exceeds 800, and leaves in the list exactly the moved
  obstacles whose new ordinate is at most 800, in order and all active.
\<close>

theorem obstacle_advance_expiry:
  assumes "\<forall>ob \<in> set (obstacles r). active ob"
  shows "obstacles (Road_update r dt v dr) =
           filter (\<lambda>ob. ob_y ob \<le> 800)
             (map (\<lambda>ob. ob\<lparr>ob_y := float_add (ob_y ob) (float_mul (float_mul v dt) 150)\<rparr>)
                (if float_add (obstacle_spawn_timer r) (float_mul dt 1000)
                      \<ge> of_int (obstacle_spawn_interval r)
                   then obstacles (spawn_obstacle r (spawn_lane dr) (spawn_rand dr) (spawn_anim dr))
                 else obstacles r))
       \<and> (\<forall>ob \<in> set (obstacles (Road_update r dt v dr)). active ob)
       \<and> (\<forall>ob \<in> set (if float_add (obstacle_spawn_timer r) (float_mul dt 1000)
                      \<ge> of_int (obstacle_spawn_interval r)
                   then obstacles (spawn_obstacle r (spawn_lane dr) (spawn_rand dr) (spawn_anim dr))
                 else obstacles r).
            ob_y (Obstacle_update ob dt v)
              = float_add (ob_y ob) (float_mul (float_mul v dt) 150)
            \<and> (active (Obstacle_update ob dt v)
                 \<longleftrightarrow> float_add (ob_y ob) (float_mul (float_mul v dt) 150) \<le> 800))"
proof -
  let ?pre = "if float_add (obstacle_spawn_timer r) (float_mul dt 1000)
                   \<ge> of_int (obstacle_spawn_interval r)
                then obstacles (spawn_obstacle r (spawn_lane dr) (spawn_rand dr) (spawn_anim dr))
              else obstacles r"
  have pre: "\<forall>ob \<in> set ?pre. active ob"
    using assms spawn_obstacle_active [OF assms] by simp
  have upd: "obstacles (Road_update r dt v dr) = update_obstacles dt v ?pre"
    by (rule Road_update_obstacles)
  have one: "obstacles (Road_update r dt v dr) =
           filter (\<lambda>ob. ob_y ob \<le> 800)
             (map (\<lambda>ob. ob\<lparr>ob_y := float_add (ob_y ob) (float_mul (float_mul v dt) 150)\<rparr>)
                ?pre)"
    using update_obstacles_filter [OF pre, of dt v] upd by simp
  have two: "\<forall>ob \<in> set (obstacles (Road_update r dt v dr)). active ob"
    using update_obstacles_active [of dt v ?pre] upd by simp
  have three: "\<forall>ob \<in> set ?pre.
            ob_y (Obstacle_update ob dt v)
              = float_add (ob_y ob) (float_mul (float_mul v dt) 150)
            \<and> (active (Obstacle_update ob dt v)
                 \<longleftrightarrow> float_add (ob_y ob) (float_mul (float_mul v dt) 150) \<le> 800)"
    using pre by (simp add: Obstacle_update_y Obstacle_update_active)
  show ?thesis
    using one two three by blast
qed

theorem obstacle_advance_expiry_witness:
  "obstacles (Road_update
       ((Road_init 600 800)\<lparr>obstacles :=
          [Obstacle_init 300 790 50 80 0 ''car'' 0, Obstacle_init 100 0 50 80 0 ''truck'' 0]\<rparr>)
       (1 / 8) 3
       \<lparr>spawn_lane = 2, spawn_rand = 1 / 2, spawn_anim = 0, particle_gate = 1 / 2,
         particle_x = 7, particle_speed = 300, particle_life = 4\<rparr>)
     = [Obstacle_init 100 (225 / 4) 50 80 0 ''truck'' 0]"
proof -
  have h: "\<forall>ob \<in> set (obstacles ((Road_init 600 800)\<lparr>obstacles :=
          [Obstacle_init 300 790 50 80 0 ''car'' 0, Obstacle_init 100 0 50 80 0 ''truck'' 0]\<rparr>)).
            active ob"
    by (simp add: Obstacle_init_def)
  have "obstacles (Road_update
       ((Road_init 600 800)\<lparr>obstacles :=
          [Obstacle_init 300 790 50 80 0 ''car'' 0, Obstacle_init 100 0 50 80 0 ''truck'' 0]\<rparr>)
       (1 / 8) 3
       \<lparr>spawn_lane = 2, spawn_rand = 1 / 2, spawn_anim = 0, particle_gate = 1 / 2,
         particle_x = 7, particle_speed = 300, particle_life = 4\<rparr>)
     = filter (\<lambda>ob. ob_y ob \<le> 800)
             (map (\<lambda>ob. ob\<lparr>ob_y := float_add (ob_y ob) (float_mul (float_mul 3 (1 / 8)) 150)\<rparr>)
                (if float_add (obstacle_spawn_timer ((Road_init 600 800)\<lparr>obstacles :=
          [Obstacle_init 300 790 50 80 0 ''car'' 0, Obstacle_init 100 0 50 80 0 ''truck'' 0]\<rparr>)) (float_mul (1 / 8) 1000)
                      \<ge> of_int (obstacle_spawn_interval ((Road_init 600 800)\<lparr>obstacles :=
          [Obstacle_init 300 790 50 80 0 ''car'' 0, Obstacle_init 100 0 50 80 0 ''truck'' 0]\<rparr>))
                   then obstacles (spawn_obstacle ((Road_init 600 800)\<lparr>obstacles :=
          [Obstacle_init 300 790 50 80 0 ''car'' 0, Obstacle_init 100 0 50 80 0 ''truck'' 0]\<rparr>) (spawn_lane \<lparr>spawn_lane = 2, spawn_rand = 1 / 2, spawn_anim = 0, particle_gate = 1 / 2,
         particle_x = 7, particle_speed = 300, particle_life = 4\<rparr>) (spawn_rand \<lparr>spawn_lane = 2, spawn_rand = 1 / 2, spawn_anim = 0, particle_gate = 1 / 2,
         particle_x = 7, particle_speed = 300, particle_life = 4\<rparr>) (spawn_anim \<lparr>spawn_lane = 2, spawn_rand = 1 / 2, spawn_anim = 0, particle_gate = 1 / 2,
         particle_x = 7, particle_speed = 300, particle_life = 4\<rparr>))
                 else obstacles ((Road_init 600 800)\<lparr>obstacles :=
          [Obstacle_init 300 790 50 80 0 ''car'' 0, Obstacle_init 100 0 50 80 0 ''truck'' 0]\<rparr>)))"
    using obstacle_advance_expiry [OF h, of "1 / 8" 3 "\<lparr>spawn_lane = 2, spawn_rand = 1 / 2, spawn_anim = 0, particle_gate = 1 / 2,
         particle_x = 7, particle_speed = 300, particle_life = 4\<rparr>"] by (rule conjunct1)
  also have "\<dots> = [Obstacle_init 100 (225 / 4) 50 80 0 ''truck'' 0]"
    by code_simp
  finally show ?thesis .
qed

text \<open>
  The claim as stated fails, because the sum is rounded: with the double nearest 0.1 as
  time delta and velocity 3, an obstacle at ordinate 755 is stored at exactly 800 and
  stays in the list, although \<open>755 + v * dt * 150\<close> exceeds 800; its ordinate has grown by
  45, which is neither the exact product nor the float product.
\<close>

theorem obstacle_advance_counterexample:
  "ob_y (Obstacle_update (Obstacle_init 300 755 50 80 0 ''car'' 0) (double_of (1 / 10)) 3) = 800
   \<and> 800 < 755 + 3 * double_of (1 / 10) * 150
   \<and> 800 - 755 \<noteq> float_mul (float_mul 3 (double_of (1 / 10))) 150
   \<and> active (Obstacle_update (Obstacle_init 300 755 50 80 0 ''car'' 0) (double_of (1 / 10)) 3)
   \<and> obstacles (Road_update
        ((Road_init 600 800)\<lparr>obstacles := [Obstacle_init 300 755 50 80 0 ''car'' 0]\<rparr>)
        (double_of (1 / 10)) 3
        \<lparr>spawn_lane = 2, spawn_rand = 1 / 2, spawn_anim = 0, particle_gate = 1 / 2,
         particle_x = 7, particle_speed = 300, particle_life = 4\<rparr>)
      = [Obstacle_init 300 800 50 80 0 ''car'' 0]"
proof -
  have a: "ob_y (Obstacle_update (Obstacle_init 300 755 50 80 0 ''car'' 0)
              (double_of (1 / 10)) 3) = 800"
    by code_simp
  have b: "800 < 755 + 3 * double_of (1 / 10) * 150"
    by code_simp
  have c: "800 - 755 \<noteq> float_mul (float_mul 3 (double_of (1 / 10))) 150"
    by code_simp
  have d: "active (Obstacle_update (Obstacle_init 300 755 50 80 0 ''car'' 0)
              (double_of (1 / 10)) 3)"
    by code_simp
  have e: "obstacles (Road_update
        ((Road_init 600 800)\<lparr>obstacles := [Obstacle_init 300 755 50 80 0 ''car'' 0]\<rparr>)
        (double_of (1 / 10)) 3
        \<lparr>spawn_lane = 2, spawn_rand = 1 / 2, spawn_anim = 0, particle_gate = 1 / 2,
         particle_x = 7, particle_speed = 300, particle_life = 4\<rparr>)
      = [Obstacle_init 300 800 50 80 0 ''car'' 0]"
    by code_simp
  show ?thesis
    using a b c d e by blast
qed

section \<open>Road: score and distance\<close>

text \<open>
  Claim C9, as the code has it. For a time delta and a vehicle velocity that are not
  negative, a multiplier that is not negative and a distance that is a double (the
  multiplier is 1 and the distance a double in every road the code produces, see
  \<open>road_ok_reachable\<close> below), \<open>Road.update\<close> never decreases the distance or the score:
  the distance becomes the float sum of the old distance and the increment
  \<open>v * dt * 15\<close> computed in floats, and the score grows by the integer floor of the
  float product of that increment and the multiplier.
\<close>

theorem score_distance_monotone:
  assumes "0 \<le> dt" and "0 \<le> v" and "0 \<le> multiplier r"
    and "is_double (distance_traveled r)"
  shows "distance_traveled (Road_update r dt v dr)
           = float_add (distance_traveled r) (float_mul (float_mul v dt) 15)
       \<and> score (Road_update r dt v dr)
           = score r + \<lfloor>float_mul (float_mul (float_mul v dt) 15) (multiplier r)\<rfloor>
       \<and> distance_traveled r \<le> distance_traveled (Road_update r dt v dr)
       \<and> score r \<le> score (Road_update r dt v dr)"
proof -
  have "0 \<le> float_mul v dt"
    using assms(2,1) by (rule float_mul_nonneg)
  then have inc: "0 \<le> float_mul (float_mul v dt) 15"
    by (rule float_mul_nonneg) simp
  then have pts: "0 \<le> float_mul (float_mul (float_mul v dt) 15) (multiplier r)"
    using assms(3) by (rule float_mul_nonneg)
  then have fl: "0 \<le> \<lfloor>float_mul (float_mul (float_mul v dt) 15) (multiplier r)\<rfloor>"
    by simp
  have up: "distance_traveled r
              \<le> float_add (distance_traveled r) (float_mul (float_mul v dt) 15)"
    using assms(4) inc by (rule float_add_increase)
  show ?thesis
    using up fl by (simp add: Road_update_score Road_update_distance py_int_nonneg [OF pts])
qed

theorem score_distance_monotone_witness:
  "distance_traveled (Road_update (Road_init 600 800) (1 / 2) 3
       \<lparr>spawn_lane = 2, spawn_rand = 1 / 2, spawn_anim = 0, particle_gate = 1 / 2,
         particle_x = 7, particle_speed = 300, particle_life = 4\<rparr>) = 45 / 2
   \<and> score (Road_update (Road_init 600 800) (1 / 2) 3
       \<lparr>spawn_lane = 2, spawn_rand = 1 / 2, spawn_anim = 0, particle_gate = 1 / 2,
         particle_x = 7, particle_speed = 300, particle_life = 4\<rparr>) = 22"
proof -
  have h: "(0::rat) \<le> 1 / 2" "(0::rat) \<le> 3" "0 \<le> multiplier (Road_init 600 800)"
          "is_double (distance_traveled (Road_init 600 800))"
    by (simp_all add: Road_init_def is_double_0)
  have f: "multiplier (Road_init 600 800) = 1" "score (Road_init 600 800) = 0"
          "distance_traveled (Road_init 600 800) = 0"
    by (simp_all add: Road_init_def)
  have d: "float_add 0 (float_mul (float_mul 3 (1 / 2)) 15) = 45 / 2"
    by code_simp
  have p: "\<lfloor>float_mul (float_mul (float_mul 3 (1 / 2)) 15) 1\<rfloor> = 22"
    by code_simp
  show ?thesis
    using score_distance_monotone [OF h, of
       "\<lparr>spawn_lane = 2, spawn_rand = 1 / 2, spawn_anim = 0, particle_gate = 1 / 2,
         particle_x = 7, particle_speed = 300, particle_life = 4\<rparr>"]
    by (simp only: f d p) simp
qed

text \<open>
  The claim as stated fails, because the products are rounded: with the double nearest
  0.6 as time delta and velocity 1, the exact increment \<open>v * dt * 15\<close> lies below 9 and
  its floor is 8, while the code adds 9 to the distance and 9 to the score.
\<close>

theorem score_distance_counterexample:
  "score (Road_update (Road_init 600 800) (double_of (6 / 10)) 1
       \<lparr>spawn_lane = 2, spawn_rand = 1 / 2, spawn_anim = 0, particle_gate = 1 / 2,
         particle_x = 7, particle_speed = 300, particle_life = 4\<rparr>) = 9
   \<and> score (Road_init 600 800)
        + \<lfloor>1 * double_of (6 / 10) * 15 * multiplier (Road_init 600 800)\<rfloor> = 8
   \<and> distance_traveled (Road_update (Road_init 600 800) (double_of (6 / 10)) 1
       \<lparr>spawn_lane = 2, spawn_rand = 1 / 2, spawn_anim = 0, particle_gate = 1 / 2,
         particle_x = 7, particle_speed = 300, particle_life = 4\<rparr>) = 9
   \<and> distance_traveled (Road_init 600 800) + 1 * double_of (6 / 10) * 15 < 9"
proof -
  have a: "score (Road_update (Road_init 600 800) (double_of (6 / 10)) 1
       \<lparr>spawn_lane = 2, spawn_rand = 1 / 2, spawn_anim = 0, particle_gate = 1 / 2,
         particle_x = 7, particle_speed = 300, particle_life = 4\<rparr>) = 9"
    by code_simp
  have b: "score (Road_init 600 800)
        + \<lfloor>1 * double_of (6 / 10) * 15 * multiplier (Road_init 600 800)\<rfloor> = 8"
    by code_simp
  have c: "distance_traveled (Road_update (Road_init 600 800) (double_of (6 / 10)) 1
       \<lparr>spawn_lane = 2, spawn_rand = 1 / 2, spawn_anim = 0, particle_gate = 1 / 2,
         particle_x = 7, particle_speed = 300, particle_life = 4\<rparr>) = 9"
    by code_simp
  have d: "distance_traveled (Road_init 600 800) + 1 * double_of (6 / 10) * 15 < 9"
    by code_simp
  show ?thesis
    using a b c d by blast
qed

section \<open>Road: the states the code produces\<close>

lemma road_ok_init: "road_ok (Road_init w h)"
  by (simp add: road_ok_def Road_init_def is_double_0)

lemma road_ok_spawn_obstacle: "road_ok r \<Longrightarrow> road_ok (spawn_obstacle r l rd an)"
  using spawn_obstacle_active [of r l rd an] by (simp add: road_ok_def spawn_obstacle_fields)

lemma road_ok_Road_update:
  assumes "road_ok r"
  shows "road_ok (Road_update r dt v dr)"
proof -
  have "\<forall>ob \<in> set (obstacles (Road_update r dt v dr)). active ob"
    using update_obstacles_active by (simp only: Road_update_obstacles)
  moreover have "multiplier (Road_update r dt v dr) = 1"
    using assms by (simp add: road_ok_def Road_update_steps road_step_fields)
  moreover have "is_double (distance_traveled (Road_update r dt v dr))"
    by (simp add: Road_update_distance float_add_def is_double_double_of)
  ultimately show ?thesis
    by (simp add: road_ok_def)
qed

lemma road_ok_Road_reset: "road_ok (Road_reset r)"
  by (simp add: road_ok_def Road_reset_fields is_double_0)

lemma road_ok_step: "road_ok r \<Longrightarrow> road_ok (road_step r p)"
  by (cases p) (simp_all add: road_ok_spawn_obstacle road_ok_Road_update road_ok_Road_reset)

lemma road_ok_run: "road_ok r \<Longrightarrow> road_ok (run_road r ops)"
  by (induction ops arbitrary: r) (simp_all add: run_road_Nil run_road_Cons road_ok_step)

lemma road_ok_reachable:
  "(\<forall>ob \<in> set (obstacles (run_road (Road_init w h) ops)). active ob)
   \<and> multiplier (run_road (Road_init w h) ops) = 1
   \<and> is_double (distance_traveled (run_road (Road_init w h) ops))"
  using road_ok_run [OF road_ok_init, of w h ops] by (simp add: road_ok_def)

section \<open>Road: collisions\<close>

lemma extent_overlap_pos:
  "0 < extent_overlap x w x' w' \<longleftrightarrow>
     w \<noteq> 0 \<and> w' \<noteq> 0 \<and> min x (x + w) < max x' (x' + w') \<and> max x (x + w) > min x' (x' + w')"
  unfolding extent_overlap_def by (cases "0 \<le> w"; cases "0 \<le> w'") (auto simp add: min_def max_def)

lemma extent_overlap_nonneg: "0 \<le> extent_overlap x w x' w'"
  by (simp add: extent_overlap_def)

lemma colliderect_area: "colliderect a b \<longleftrightarrow> 0 < overlap_area a b"
proof -
  have "0 < overlap_area a b \<longleftrightarrow>
          0 < extent_overlap (rect_x a) (rect_w a) (rect_x b) (rect_w b)
          \<and> 0 < extent_overlap (rect_y a) (rect_h a) (rect_y b) (rect_h b)"
    using extent_overlap_nonneg [of "rect_x a" "rect_w a" "rect_x b" "rect_w b"]
          extent_overlap_nonneg [of "rect_y a" "rect_h a" "rect_y b" "rect_h b"]
    by (auto simp add: overlap_area_def zero_less_mult_iff)
  then show ?thesis
    unfolding extent_overlap_pos colliderect_def by auto
qed

lemma check_collisions_loop_hit:
  "fst (check_collisions_loop obs cr) \<longleftrightarrow>
     (\<exists>ob \<in> set obs. active ob \<and> colliderect cr (Obstacle_get_rect ob))"
  by (induction obs) auto

text \<open>
  Claim C10. \<open>check_collisions\<close> reports a collision exactly when some active obstacle
  of the list has a box that shares positive area with the vehicle's box. Boxes that
  only touch along an edge or at a corner share area 0, and an inactive obstacle is
  never counted.
\<close>

theorem strict_collision_boundary:
  "fst (check_collisions r cr) \<longleftrightarrow>
     (\<exists>ob \<in> set (obstacles r). active ob \<and> 0 < overlap_area cr (Obstacle_get_rect ob))"
  by (simp add: check_collisions_def check_collisions_loop_hit colliderect_area)

theorem strict_collision_boundary_witness:
  "\<not> fst (check_collisions
        ((Road_init 600 800)\<lparr>obstacles := [Obstacle_init 300 725 50 80 0 ''car'' 0]\<rparr>)
        (Car_get_rect (Car_init 300 650 45 70)))
   \<and> fst (check_collisions
        ((Road_init 600 800)\<lparr>obstacles := [Obstacle_init 300 724 50 80 0 ''car'' 0]\<rparr>)
        (Car_get_rect (Car_init 300 650 45 70)))
   \<and> \<not> fst (check_collisions
        ((Road_init 600 800)\<lparr>obstacles :=
           [(Obstacle_init 300 650 50 80 0 ''car'' 0)\<lparr>active := False\<rparr>]\<rparr>)
        (Car_get_rect (Car_init 300 650 45 70)))"
proof -
  have area0: "overlap_area (Car_get_rect (Car_init 300 650 45 70))
                 (Obstacle_get_rect (Obstacle_init 300 725 50 80 0 ''car'' 0)) = 0"
    by code_simp
  have area1: "overlap_area (Car_get_rect (Car_init 300 650 45 70))
                 (Obstacle_get_rect (Obstacle_init 300 724 50 80 0 ''car'' 0)) = 45"
    by code_simp
  show ?thesis
    using strict_collision_boundary [of
            "(Road_init 600 800)\<lparr>obstacles := [Obstacle_init 300 725 50 80 0 ''car'' 0]\<rparr>"
            "Car_get_rect (Car_init 300 650 45 70)"]
          strict_collision_boundary [of
            "(Road_init 600 800)\<lparr>obstacles := [Obstacle_init 300 724 50 80 0 ''car'' 0]\<rparr>"
            "Car_get_rect (Car_init 300 650 45 70)"]
          strict_collision_boundary [of
            "(Road_init 600 800)\<lparr>obstacles :=
               [(Obstacle_init 300 650 50 80 0 ''car'' 0)\<lparr>active := False\<rparr>]\<rparr>"
            "Car_get_rect (Car_init 300 650 45 70)"]
          area0 area1
    by (simp add: Obstacle_init_def)
qed

section \<open>Reset\<close>

lemma car_consts_init: "car_consts (Car_init x0 y0 w h) w h"
  by (simp add: car_consts_def Car_init_def)

lemma car_consts_step: "car_consts c w h \<Longrightarrow> car_consts (car_step c p) w h"
  by (cases p)
     (simp_all add: car_consts_def update_controls_fields Car_update_steps lane_step_fields
        speed_step_fields reset_position_fields)

lemma car_consts_run: "car_consts c w h \<Longrightarrow> car_consts (run_car c ops) w h"
  by (induction ops arbitrary: c) (simp_all add: run_car_Nil run_car_Cons car_consts_step)

lemma road_consts_init: "road_consts (Road_init w h) w h"
  by (simp add: road_consts_def Road_init_def)

lemma road_consts_step: "road_consts r w h \<Longrightarrow> road_consts (road_step r p) w h"
  by (cases p)
     (simp_all add: road_consts_def Road_update_steps road_step_fields spawn_obstacle_fields
        Road_reset_fields)

lemma road_consts_run: "road_consts r w h \<Longrightarrow> road_consts (run_road r ops) w h"
  by (induction ops arbitrary: r) (simp_all add: run_road_Nil run_road_Cons road_consts_step)

lemma reset_position_consts:
  assumes "car_consts c w h"
  shows "reset_position c x1 y1 =
           (Car_init x1 y1 w h)\<lparr>braking := braking c, current_command := current_command c\<rparr>"
  using assms by (cases c) (simp add: car_consts_def reset_position_def Car_init_def Let_def)

lemma Road_reset_consts:
  assumes "road_consts r w h"
  shows "Road_reset r = (Road_init w h)\<lparr>road_y_offset := road_y_offset r\<rparr>"
  using assms by (cases r) (simp add: road_consts_def Road_reset_def Road_init_def)

text \<open>
  Claim C1, as the code has it. After any run of vehicle calls and any run of road
  calls from the start states, \<open>reset_position\<close> and \<open>Road.reset\<close> give back the start
  states in every field other than the braking flag, the held command
  \<open>current_command\<close> and the scroll offset \<open>road_y_offset\<close>: in particular lane 1,
  target lane 1, velocity 0, score 0, distance 0, multiplier 1, spawn timer 0 and no
  obstacles.
\<close>

theorem reset_restores_start_state:
  "(reset_position (run_car (Car_init x0 y0 w h) ops) x1 y1)
       \<lparr>braking := False, current_command := ''CENTER''\<rparr> = Car_init x1 y1 w h
   \<and> (Road_reset (run_road (Road_init rw rh) rops))\<lparr>road_y_offset := 0\<rparr> = Road_init rw rh
   \<and> lane (reset_position (run_car (Car_init x0 y0 w h) ops) x1 y1) = 1
   \<and> target_lane (reset_position (run_car (Car_init x0 y0 w h) ops) x1 y1) = 1
   \<and> velocity (reset_position (run_car (Car_init x0 y0 w h) ops) x1 y1) = 0
   \<and> score (Road_reset (run_road (Road_init rw rh) rops)) = 0
   \<and> distance_traveled (Road_reset (run_road (Road_init rw rh) rops)) = 0
   \<and> multiplier (Road_reset (run_road (Road_init rw rh) rops)) = 1
   \<and> obstacles (Road_reset (run_road (Road_init rw rh) rops)) = []
   \<and> obstacle_spawn_timer (Road_reset (run_road (Road_init rw rh) rops)) = 0"
proof -
  have "car_consts (run_car (Car_init x0 y0 w h) ops) w h"
    by (rule car_consts_run) (rule car_consts_init)
  then have "reset_position (run_car (Car_init x0 y0 w h) ops) x1 y1 =
     (Car_init x1 y1 w h)
       \<lparr>braking := braking (run_car (Car_init x0 y0 w h) ops),
        current_command := current_command (run_car (Car_init x0 y0 w h) ops)\<rparr>"
    by (rule reset_position_consts)
  then have vehicle: "(reset_position (run_car (Car_init x0 y0 w h) ops) x1 y1)
       \<lparr>braking := False, current_command := ''CENTER''\<rparr> = Car_init x1 y1 w h"
    by (simp add: Car_init_def)
  have "road_consts (run_road (Road_init rw rh) rops) rw rh"
    by (rule road_consts_run) (rule road_consts_init)
  then have "Road_reset (run_road (Road_init rw rh) rops) =
     (Road_init rw rh)\<lparr>road_y_offset := road_y_offset (run_road (Road_init rw rh) rops)\<rparr>"
    by (rule Road_reset_consts)
  then have roadway: "(Road_reset (run_road (Road_init rw rh) rops))\<lparr>road_y_offset := 0\<rparr>
       = Road_init rw rh"
    by (simp add: Road_init_def)
  show ?thesis
    using vehicle roadway by (simp add: reset_position_fields Road_reset_fields)
qed

theorem reset_restores_start_state_witness:
  "(reset_position (run_car (Car_init 300 650 45 70)
       [UpdateControls ''SWIPE_LEFT'', Update (1 / 60), UpdateControls ''BRAKE'']) 300 650)
       \<lparr>braking := False, current_command := ''CENTER''\<rparr> = Car_init 300 650 45 70
   \<and> (Road_reset (run_road (Road_init 600 800)
       [RoadUpdate (1 / 60) 3
          \<lparr>spawn_lane = 2, spawn_rand = 1 / 2, spawn_anim = 0, particle_gate = 1 / 10,
            particle_x = 7, particle_speed = 300, particle_life = 4\<rparr>]))
       \<lparr>road_y_offset := 0\<rparr> = Road_init 600 800
   \<and> target_lane (run_car (Car_init 300 650 45 70)
       [UpdateControls ''SWIPE_LEFT'', Update (1 / 60), UpdateControls ''BRAKE'']) = 0
   \<and> target_lane (reset_position (run_car (Car_init 300 650 45 70)
       [UpdateControls ''SWIPE_LEFT'', Update (1 / 60), UpdateControls ''BRAKE'']) 300 650) = 1"
proof -
  have t: "target_lane (run_car (Car_init 300 650 45 70)
       [UpdateControls ''SWIPE_LEFT'', Update (1 / 60), UpdateControls ''BRAKE'']) = 0"
    by code_simp
  show ?thesis
    using reset_restores_start_state [of 300 650 45 70
        "[UpdateControls ''SWIPE_LEFT'', Update (1 / 60), UpdateControls ''BRAKE'']" 300 650
        600 800
        "[RoadUpdate (1 / 60) 3
          \<lparr>spawn_lane = 2, spawn_rand = 1 / 2, spawn_anim = 0, particle_gate = 1 / 10,
            particle_x = 7, particle_speed = 300, particle_life = 4\<rparr>]"] t
    by simp
qed

text \<open>
  The claim as stated fails: after a BRAKE command the reset vehicle still has the
  braking flag set and BRAKE as its held command, and after one road update the reset
  road still has scroll offset 5, where the start states have \<open>False\<close>, CENTER and 0.
\<close>

theorem reset_leaves_fields_counterexample:
  "\<not> (reset_position (run_car (Car_init 300 650 45 70) [UpdateControls ''BRAKE'']) 300 650
        = Car_init 300 650 45 70)
   \<and> braking (reset_position (run_car (Car_init 300 650 45 70) [UpdateControls ''BRAKE''])
        300 650)
   \<and> \<not> braking (Car_init 300 650 45 70)
   \<and> current_command (reset_position
        (run_car (Car_init 300 650 45 70) [UpdateControls ''BRAKE'']) 300 650) = ''BRAKE''
   \<and> current_command (Car_init 300 650 45 70) = ''CENTER''
   \<and> \<not> (Road_reset (run_road (Road_init 600 800)
        [RoadUpdate (1 / 60) 3
          \<lparr>spawn_lane = 2, spawn_rand = 1 / 2, spawn_anim = 0, particle_gate = 1 / 10,
            particle_x = 7, particle_speed = 300, particle_life = 4\<rparr>]) = Road_init 600 800)
   \<and> road_y_offset (Road_reset (run_road (Road_init 600 800)
        [RoadUpdate (1 / 60) 3
          \<lparr>spawn_lane = 2, spawn_rand = 1 / 2, spawn_anim = 0, particle_gate = 1 / 10,
            particle_x = 7, particle_speed = 300, particle_life = 4\<rparr>])) = 5
   \<and> road_y_offset (Road_init 600 800) = 0"
proof -
  have b1: "braking (reset_position (run_car (Car_init 300 650 45 70) [UpdateControls ''BRAKE''])
        300 650)"
    by code_simp
  have b0: "\<not> braking (Car_init 300 650 45 70)"
    by code_simp
  have c1: "current_command (reset_position
        (run_car (Car_init 300 650 45 70) [UpdateControls ''BRAKE'']) 300 650) = ''BRAKE''"
    by code_simp
  have c0: "current_command (Car_init 300 650 45 70) = ''CENTER''"
    by code_simp
  have o1: "road_y_offset (Road_reset (run_road (Road_init 600 800)
        [RoadUpdate (1 / 60) 3
          \<lparr>spawn_lane = 2, spawn_rand = 1 / 2, spawn_anim = 0, particle_gate = 1 / 10,
            particle_x = 7, particle_speed = 300, particle_life = 4\<rparr>])) = 5"
    by code_simp
  have o0: "road_y_offset (Road_init 600 800) = 0"
    by code_simp
  have car_differs:
    "\<not> (reset_position (run_car (Car_init 300 650 45 70) [UpdateControls ''BRAKE'']) 300 650
        = Car_init 300 650 45 70)"
  proof
    assume "reset_position (run_car (Car_init 300 650 45 70) [UpdateControls ''BRAKE'']) 300 650
        = Car_init 300 650 45 70"
    then have "braking (Car_init 300 650 45 70)"
      using b1 by simp
    then show False
      using b0 by simp
  qed
  have road_differs:
    "\<not> (Road_reset (run_road (Road_init 600 800)
        [RoadUpdate (1 / 60) 3
          \<lparr>spawn_lane = 2, spawn_rand = 1 / 2, spawn_anim = 0, particle_gate = 1 / 10,
            particle_x = 7, particle_speed = 300, particle_life = 4\<rparr>]) = Road_init 600 800)"
  proof
    assume "Road_reset (run_road (Road_init 600 800)
        [RoadUpdate (1 / 60) 3
          \<lparr>spawn_lane = 2, spawn_rand = 1 / 2, spawn_anim = 0, particle_gate = 1 / 10,
            particle_x = 7, particle_speed = 300, particle_life = 4\<rparr>]) = Road_init 600 800"
    then have "road_y_offset (Road_init 600 800) = 5"
      using o1 by simp
    then show False
      using o0 by simp
  qed
  show ?thesis
    using car_differs b1 b0 c1 c0 road_differs o1 o0 by blast
qed

section \<open>Driver: game over\<close>

lemma Game_update_not_playing: "game_state g \<noteq> ''PLAYING'' \<Longrightarrow> Game_update g dt pred dr = g"
  by (simp add: Game_update_def)

lemma run_game_Nil: "run_game g [] = g"
  by (simp add: run_game_def)

lemma run_game_Cons:
  "run_game g ((dt, pred, dr) # ticks) = run_game (Game_update g dt pred dr) ticks"
  by (simp add: run_game_def)

lemma run_game_not_playing: "game_state g \<noteq> ''PLAYING'' \<Longrightarrow> run_game g ticks = g"
proof (induction ticks)
  case Nil
  then show ?case by (simp add: run_game_Nil)
next
  case (Cons t ticks)
  obtain dt pred dr where t: "t = (dt, pred, dr)"
    by (cases t) auto
  show ?case
    using Cons by (simp add: t run_game_Cons Game_update_not_playing)
qed

text \<open>
  Claim C8. Once the game state is GAME_OVER, a driver \<open>update\<close> call returns the
  whole game unchanged, for any time delta, classifier answer and random draws, and so
  does any run of such calls: the vehicle and the road, with score, distance and
  obstacles, stay as they are. \<open>restart_game\<close> puts the state back to PLAYING.
\<close>

theorem game_over_freeze:
  assumes "game_state g = ''GAME_OVER''"
  shows "Game_update g dt pred dr = g
       \<and> run_game g ticks = g
       \<and> car (run_game g ticks) = car g
       \<and> road (run_game g ticks) = road g
       \<and> game_state (run_game g ticks) = ''GAME_OVER''
       \<and> game_state (restart_game g) = ''PLAYING''"
proof -
  have np: "game_state g \<noteq> ''PLAYING''"
    using assms by simp
  show ?thesis
    using assms Game_update_not_playing [OF np] run_game_not_playing [OF np]
    by (simp add: restart_game_def)
qed

theorem game_over_freeze_witness:
  "game_state (Game_update
       ((Game_init (1 / 2))\<lparr>road := (Road_init 600 800)\<lparr>obstacles :=
          [Obstacle_init 300 600 50 80 0 ''car'' 0]\<rparr>\<rparr>) (1 / 60) (''CENTER'', 1, [0, 1, 0])
          \<lparr>spawn_lane = 2, spawn_rand = 1 / 2, spawn_anim = 0, particle_gate = 1 / 2,
            particle_x = 7, particle_speed = 300, particle_life = 4\<rparr>) = ''GAME_OVER''
   \<and> run_game (Game_update
       ((Game_init (1 / 2))\<lparr>road := (Road_init 600 800)\<lparr>obstacles :=
          [Obstacle_init 300 600 50 80 0 ''car'' 0]\<rparr>\<rparr>) (1 / 60) (''CENTER'', 1, [0, 1, 0])
          \<lparr>spawn_lane = 2, spawn_rand = 1 / 2, spawn_anim = 0, particle_gate = 1 / 2,
            particle_x = 7, particle_speed = 300, particle_life = 4\<rparr>)
        [(1 / 60, (''SWIPE_LEFT'', 1, [1, 0, 0]),
          \<lparr>spawn_lane = 0, spawn_rand = 0, spawn_anim = 0, particle_gate = 0,
            particle_x = 0, particle_speed = 200, particle_life = 3\<rparr>)]
     = Game_update
       ((Game_init (1 / 2))\<lparr>road := (Road_init 600 800)\<lparr>obstacles :=
          [Obstacle_init 300 600 50 80 0 ''car'' 0]\<rparr>\<rparr>) (1 / 60) (''CENTER'', 1, [0, 1, 0])
          \<lparr>spawn_lane = 2, spawn_rand = 1 / 2, spawn_anim = 0, particle_gate = 1 / 2,
            particle_x = 7, particle_speed = 300, particle_life = 4\<rparr>"
proof -
  have over: "game_state (Game_update
       ((Game_init (1 / 2))\<lparr>road := (Road_init 600 800)\<lparr>obstacles :=
          [Obstacle_init 300 600 50 80 0 ''car'' 0]\<rparr>\<rparr>) (1 / 60) (''CENTER'', 1, [0, 1, 0])
          \<lparr>spawn_lane = 2, spawn_rand = 1 / 2, spawn_anim = 0, particle_gate = 1 / 2,
            particle_x = 7, particle_speed = 300, particle_life = 4\<rparr>) = ''GAME_OVER''"
    by code_simp
  show ?thesis
    using over game_over_freeze [OF over] by simp
qed


end
